theory Spec2Isabelle
  imports Complex_Main
begin

section \<open>Anchor boxes of EfficientDet (examples/efficientdet/anchors.py)\<close>

text \<open>
  The module computes the prior boxes of an EfficientDet model with numpy. The embedding
  keeps the functions of the module one by one, with their names, and models the numpy
  calls they make as list functions.

  Floating-point numbers are modelled by \<open>npfloat\<close>: a finite value carries a real
  number, and the three special values of IEEE arithmetic are kept, since numpy returns
  them (with a warning, not an exception) where a \<open>sqrt\<close> or a division leaves its
  domain. Arithmetic on finite values is exact: rounding and underflow are not modelled,
  float64 does not overflow, and a signed zero is the one zero. The cast
  \<open>astype('float32')\<close> overflows to an infinity beyond the float32 range and does not
  round. Python's integers are \<open>int\<close>; their conversion to a float is exact and never
  fails (numpy rounds above \<open>2^53\<close> and raises OverflowError from \<open>2^1024\<close>).
\<close>

subsection \<open>Floating-point values\<close>

datatype npfloat = Fin real | PInf | NInf | NaN

fun is_finite :: "npfloat \<Rightarrow> bool" where
  "is_finite (Fin x) = True"
| "is_finite PInf = False"
| "is_finite NInf = False"
| "is_finite NaN = False"

text \<open>The infinity of a given sign (\<open>True\<close> is negative).\<close>

definition inf_of :: "bool \<Rightarrow> npfloat" where
  "inf_of negative = (if negative then NInf else PInf)"

fun fneg :: "npfloat \<Rightarrow> npfloat" where
  "fneg (Fin x) = Fin (- x)"
| "fneg PInf = NInf"
| "fneg NInf = PInf"
| "fneg NaN = NaN"

fun fadd :: "npfloat \<Rightarrow> npfloat \<Rightarrow> npfloat" where
  "fadd (Fin x) (Fin y) = Fin (x + y)"
| "fadd NaN b = NaN"
| "fadd a NaN = NaN"
| "fadd PInf NInf = NaN"
| "fadd NInf PInf = NaN"
| "fadd PInf b = PInf"
| "fadd a PInf = PInf"
| "fadd NInf b = NInf"
| "fadd a NInf = NInf"

definition fsub :: "npfloat \<Rightarrow> npfloat \<Rightarrow> npfloat" where
  "fsub a b = fadd a (fneg b)"

fun fmul :: "npfloat \<Rightarrow> npfloat \<Rightarrow> npfloat" where
  "fmul (Fin x) (Fin y) = Fin (x * y)"
| "fmul NaN b = NaN"
| "fmul a NaN = NaN"
| "fmul (Fin x) PInf = (if x = 0 then NaN else inf_of (x < 0))"
| "fmul (Fin x) NInf = (if x = 0 then NaN else inf_of (0 < x))"
| "fmul PInf (Fin y) = (if y = 0 then NaN else inf_of (y < 0))"
| "fmul NInf (Fin y) = (if y = 0 then NaN else inf_of (0 < y))"
| "fmul PInf PInf = PInf"
| "fmul PInf NInf = NInf"
| "fmul NInf PInf = NInf"
| "fmul NInf NInf = PInf"

text \<open>
  Division of numpy scalars and arrays: a zero divisor gives an infinity or NaN, never
  an exception.
\<close>

fun fdiv :: "npfloat \<Rightarrow> npfloat \<Rightarrow> npfloat" where
  "fdiv (Fin x) (Fin y) =
     (if y \<noteq> 0 then Fin (x / y) else if x = 0 then NaN else inf_of (x < 0))"
| "fdiv NaN b = NaN"
| "fdiv a NaN = NaN"
| "fdiv (Fin x) PInf = Fin 0"
| "fdiv (Fin x) NInf = Fin 0"
| "fdiv PInf (Fin y) = inf_of (y < 0)"
| "fdiv NInf (Fin y) = inf_of (0 \<le> y)"
| "fdiv PInf b = NaN"
| "fdiv NInf b = NaN"

text \<open>\<open>np.sqrt\<close>: NaN on a negative argument.\<close>

fun fsqrt :: "npfloat \<Rightarrow> npfloat" where
  "fsqrt (Fin x) = (if x < 0 then NaN else Fin (sqrt x))"
| "fsqrt PInf = PInf"
| "fsqrt NInf = NaN"
| "fsqrt NaN = NaN"

text \<open>\<open>2 ** a\<close>.\<close>

fun fpow2 :: "npfloat \<Rightarrow> npfloat" where
  "fpow2 (Fin x) = Fin (2 powr x)"
| "fpow2 PInf = PInf"
| "fpow2 NInf = Fin 0"
| "fpow2 NaN = NaN"

text \<open>\<open>np.reciprocal\<close> on a float array element.\<close>

definition reciprocal :: "npfloat \<Rightarrow> npfloat" where
  "reciprocal a = fdiv (Fin 1) a"

subsection \<open>Errors and arrays\<close>

text \<open>
  The exceptions the numpy calls of the module raise. A function that can raise returns
  \<open>error + 'a\<close>, \<open>Inl\<close> being the exception.
\<close>

datatype error = ValueError | IndexError | TypeError

definition and_then :: "error + 'a \<Rightarrow> ('a \<Rightarrow> error + 'b) \<Rightarrow> error + 'b" where
  "and_then m f = (case m of Inl e \<Rightarrow> Inl e | Inr x \<Rightarrow> f x)"

text \<open>A \<open>for\<close> loop that appends one result per element and stops at the first exception.\<close>

fun for_each :: "('a \<Rightarrow> error + 'b) \<Rightarrow> 'a list \<Rightarrow> error + 'b list" where
  "for_each f [] = Inr []"
| "for_each f (x # xs) =
     and_then (f x) (\<lambda>y. and_then (for_each f xs) (\<lambda>ys. Inr (y # ys)))"

text \<open>
  An array of floats of one or of two dimensions; a two-dimensional array is the list of
  its rows.
\<close>

datatype ndarray = Arr1 "npfloat list" | Arr2 "npfloat list list"

fun atleast_2d :: "ndarray \<Rightarrow> npfloat list list" where
  "atleast_2d (Arr1 xs) = [xs]"
| "atleast_2d (Arr2 rows) = rows"

text \<open>
  \<open>np.vstack((a, b))\<close>: both arguments are made two-dimensional and their rows are
  put one after the other; rows of different lengths raise ValueError.
\<close>

definition vstack2 :: "ndarray \<Rightarrow> ndarray \<Rightarrow> error + ndarray" where
  "vstack2 a b =
     (let rows = atleast_2d a @ atleast_2d b
      in if list_all (\<lambda>r. length r = length (hd rows)) rows then Inr (Arr2 rows)
         else Inl ValueError)"

subsection \<open>compute_feature_sizes\<close>

text \<open>
  \<^verbatim>\<open>
  feature_H, feature_W = image_size
  feature_sizes = np.array([feature_H, feature_W], dtype=np.float64)
  for _ in range(1, max_level + 1):
      feature_H = (feature_H - 1) // 2 + 1
      feature_W = (feature_W - 1) // 2 + 1
      feature_size = np.array([feature_H, feature_W])
      feature_sizes = np.vstack((feature_sizes, feature_size))
  return feature_sizes
  \<close>
  The loop runs \<open>max_level\<close> times (not at all when \<open>max_level \<le> 0\<close>); \<open>//\<close> is
  floor division, which \<open>div\<close> on \<open>int\<close> is.
\<close>

definition downsample :: "int \<Rightarrow> int" where
  "downsample h = (h - 1) div 2 + 1"

definition float_of_int :: "int \<Rightarrow> npfloat" where
  "float_of_int i = Fin (of_int i)"

fun feature_loop :: "nat \<Rightarrow> int \<Rightarrow> int \<Rightarrow> ndarray \<Rightarrow> error + ndarray" where
  "feature_loop 0 feature_H feature_W feature_sizes = Inr feature_sizes"
| "feature_loop (Suc n) feature_H feature_W feature_sizes =
     (let feature_H' = downsample feature_H;
          feature_W' = downsample feature_W;
          feature_size = Arr1 [float_of_int feature_H', float_of_int feature_W']
      in and_then (vstack2 feature_sizes feature_size)
           (feature_loop n feature_H' feature_W'))"

definition compute_feature_sizes :: "int \<times> int \<Rightarrow> int \<Rightarrow> error + ndarray" where
  "compute_feature_sizes image_size max_level =
     (case image_size of (feature_H, feature_W) \<Rightarrow>
        feature_loop (nat max_level) feature_H feature_W
          (Arr1 [float_of_int feature_H, float_of_int feature_W]))"

subsection \<open>The numpy calls of the configuration builder\<close>

text \<open>
  \<open>np.repeat(a, repeats)\<close>: every element \<open>repeats\<close> times in a row; a negative
  count raises ValueError.
\<close>

definition np_repeat :: "'a list \<Rightarrow> int \<Rightarrow> error + 'a list" where
  "np_repeat a repeats =
     (if repeats < 0 then Inl ValueError
      else Inr (concat (map (replicate (nat repeats)) a)))"

text \<open>
  \<open>np.tile(a, reps)\<close> on a one-dimensional array: the whole array \<open>reps\<close> times.
  An empty array is returned as it is; otherwise a negative count raises ValueError.
\<close>

definition np_tile :: "'a list \<Rightarrow> int \<Rightarrow> error + 'a list" where
  "np_tile a reps =
     (if a = [] then Inr []
      else if reps < 0 then Inl ValueError
      else Inr (concat (replicate (nat reps) a)))"

text \<open>
  \<open>a.reshape(n, -1)\<close> on a one-dimensional array: \<open>n\<close> rows of \<open>len(a) / n\<close>
  entries, in order. It raises ValueError when \<open>n\<close> is negative (two unknown
  dimensions), when \<open>n\<close> is zero, and when \<open>n\<close> does not divide the size.
\<close>

fun chunks :: "nat \<Rightarrow> nat \<Rightarrow> 'a list \<Rightarrow> 'a list list" where
  "chunks c 0 xs = []"
| "chunks c (Suc n) xs = take c xs # chunks c n (drop c xs)"

definition reshape_rows :: "int \<Rightarrow> 'a list \<Rightarrow> error + 'a list list" where
  "reshape_rows n a =
     (if n \<le> 0 \<or> int (length a) mod n \<noteq> 0 then Inl ValueError
      else Inr (chunks (length a div nat n) (nat n) a))"

text \<open>
  \<open>a[start:stop]\<close> on the first axis: Python's slice, where a negative bound counts
  from the end and both bounds are clipped to the length.
\<close>

definition py_slice :: "int \<Rightarrow> int \<Rightarrow> 'a list \<Rightarrow> 'a list" where
  "py_slice start stop xs =
     (let n = int (length xs);
          lo = (if start < 0 then max (start + n) 0 else min start n);
          hi = (if stop < 0 then max (stop + n) 0 else min stop n)
      in drop (nat lo) (take (nat hi) xs))"

fun slice_rows :: "int \<Rightarrow> int \<Rightarrow> ndarray \<Rightarrow> ndarray" where
  "slice_rows start stop (Arr1 xs) = Arr1 (py_slice start stop xs)"
| "slice_rows start stop (Arr2 rows) = Arr2 (py_slice start stop rows)"

text \<open>
  \<open>a[:, j]\<close>: column \<open>j\<close> of a two-dimensional array. On a one-dimensional array
  it raises IndexError (too many indices). A list of rows does not record the number of
  columns of an array without rows, which is taken to have column \<open>j\<close>: the arrays
  this is applied to have two columns and \<open>j\<close> is 0 or 1.
\<close>

fun column :: "ndarray \<Rightarrow> nat \<Rightarrow> error + npfloat list" where
  "column (Arr1 xs) j = Inl IndexError"
| "column (Arr2 rows) j =
     (if list_all (\<lambda>r. j < length r) rows then Inr (map (\<lambda>r. r ! j) rows)
      else Inl IndexError)"

text \<open>
  \<open>a, b = feature_sizes[0]\<close>: the first row, unpacked into two values. The first
  entry of a one-dimensional array is a scalar, which cannot be unpacked (TypeError);
  a row that has not two entries raises ValueError.
\<close>

fun unpack_first_row :: "ndarray \<Rightarrow> error + npfloat \<times> npfloat" where
  "unpack_first_row (Arr1 []) = Inl IndexError"
| "unpack_first_row (Arr1 (x # xs)) = Inl TypeError"
| "unpack_first_row (Arr2 []) = Inl IndexError"
| "unpack_first_row (Arr2 ([a, b] # rows)) = Inr (a, b)"
| "unpack_first_row (Arr2 (r # rows)) = Inl ValueError"

text \<open>\<open>a[i]\<close> for an index \<open>i \<ge> 0\<close>: IndexError out of range.\<close>

definition index :: "'a list \<Rightarrow> nat \<Rightarrow> error + 'a" where
  "index a i = (if i < length a then Inr (a ! i) else Inl IndexError)"

subsection \<open>generate_configurations and its builders\<close>

text \<open>
  \<^verbatim>\<open>
  feature_H = feature_sizes[min_level: max_level + 1][:, 0]
  feature_W = feature_sizes[min_level: max_level + 1][:, 1]
  features_H = np.repeat(feature_H, scale_aspect_ratio_combinations)
  features_W = np.repeat(feature_W, scale_aspect_ratio_combinations)
  return features_H, features_W
  \<close>
\<close>

definition build_features ::
  "ndarray \<Rightarrow> int \<Rightarrow> int \<Rightarrow> int \<Rightarrow> error + npfloat list \<times> npfloat list" where
  "build_features feature_sizes min_level max_level scale_aspect_ratio_combinations =
     and_then (column (slice_rows min_level (max_level + 1) feature_sizes) 0) (\<lambda>feature_H.
     and_then (column (slice_rows min_level (max_level + 1) feature_sizes) 1) (\<lambda>feature_W.
     and_then (np_repeat feature_H scale_aspect_ratio_combinations) (\<lambda>features_H.
     and_then (np_repeat feature_W scale_aspect_ratio_combinations) (\<lambda>features_W.
     Inr (features_H, features_W)))))"

text \<open>
  \<^verbatim>\<open>
  base_feature_H, base_feature_W = feature_sizes[0]
  strides_y = np.reshape(
      base_feature_H*np.reciprocal(features_H), (num_levels, -1))
  strides_x = np.reshape(
      base_feature_W*np.reciprocal(features_W), (num_levels, -1))
  return strides_y, strides_x
  \<close>
\<close>

definition build_strides ::
  "ndarray \<Rightarrow> npfloat list \<Rightarrow> npfloat list \<Rightarrow> int
     \<Rightarrow> error + npfloat list list \<times> npfloat list list" where
  "build_strides feature_sizes features_H features_W num_levels =
     and_then (unpack_first_row feature_sizes) (\<lambda>(base_feature_H, base_feature_W).
     and_then (reshape_rows num_levels
                 (map (\<lambda>f. fmul base_feature_H (reciprocal f)) features_H)) (\<lambda>strides_y.
     and_then (reshape_rows num_levels
                 (map (\<lambda>f. fmul base_feature_W (reciprocal f)) features_W)) (\<lambda>strides_x.
     Inr (strides_y, strides_x))))"

text \<open>
  \<^verbatim>\<open>
  scale_octaves = np.repeat(list(range(num_scales)), len(aspect_ratios))
  octave_scales = (np.tile(scale_octaves, num_levels)
                   / float(num_scales)).reshape(num_levels, -1)
  return octave_scales
  \<close>
\<close>

definition build_octaves :: "int \<Rightarrow> npfloat list \<Rightarrow> int \<Rightarrow> error + npfloat list list" where
  "build_octaves num_scales aspect_ratios num_levels =
     and_then (np_repeat (map (\<lambda>s. Fin (real s)) [0..<nat num_scales])
                 (int (length aspect_ratios))) (\<lambda>scale_octaves.
     and_then (np_tile scale_octaves num_levels) (\<lambda>tiled.
     reshape_rows num_levels (map (\<lambda>s. fdiv s (float_of_int num_scales)) tiled)))"

text \<open>
  \<^verbatim>\<open>
  aspect = np.tile(aspect_ratios, len(range(num_scales)))
  aspects = np.tile(aspect, num_levels).reshape(num_levels, -1)
  return aspects
  \<close>
\<close>

definition build_aspects :: "npfloat list \<Rightarrow> int \<Rightarrow> int \<Rightarrow> error + npfloat list list" where
  "build_aspects aspect_ratios num_scales num_levels =
     and_then (np_tile aspect_ratios (int (nat num_scales))) (\<lambda>aspect.
     and_then (np_tile aspect num_levels) (\<lambda>tiled.
     reshape_rows num_levels tiled))"

text \<open>
  \<^verbatim>\<open>
  anchor_scales = np.reshape(
      np.repeat(anchor_scale, scale_aspect_ratio_combinations),
      (num_levels, -1))
  return anchor_scales
  \<close>
\<close>

definition build_scales :: "npfloat list \<Rightarrow> int \<Rightarrow> int \<Rightarrow> error + npfloat list list" where
  "build_scales anchor_scale scale_aspect_ratio_combinations num_levels =
     and_then (np_repeat anchor_scale scale_aspect_ratio_combinations) (\<lambda>repeated.
     reshape_rows num_levels repeated)"

text \<open>
  \<^verbatim>\<open>
  num_levels = max_level + 1 - min_level
  scale_aspect_ratio_combinations = (
      len(range(num_scales)) * len(aspect_ratios))
  features_H, features_W = build_features(
      feature_sizes, min_level, max_level, scale_aspect_ratio_combinations)
  octave_scales = build_octaves(num_scales, aspect_ratios, num_levels)
  aspects = build_aspects(aspect_ratios, num_scales, num_levels)
  strides_y, strides_x = build_strides(
      feature_sizes, features_H, features_W, num_levels)
  anchor_scales = build_scales(
      anchor_scale, scale_aspect_ratio_combinations, num_levels)
  return ((strides_y, strides_x, octave_scales, aspects, anchor_scales),
          num_levels, scale_aspect_ratio_combinations)
  \<close>
\<close>

type_synonym configuration =
  "(npfloat list list \<times> npfloat list list \<times> npfloat list list \<times> npfloat list list
      \<times> npfloat list list) \<times> int \<times> int"

definition generate_configurations ::
  "ndarray \<Rightarrow> int \<Rightarrow> int \<Rightarrow> int \<Rightarrow> npfloat list \<Rightarrow> npfloat list
     \<Rightarrow> error + configuration" where
  "generate_configurations feature_sizes min_level max_level num_scales aspect_ratios
       anchor_scale =
     (let num_levels = max_level + 1 - min_level;
          scale_aspect_ratio_combinations = int (nat num_scales) * int (length aspect_ratios)
      in and_then (build_features feature_sizes min_level max_level
                     scale_aspect_ratio_combinations) (\<lambda>(features_H, features_W).
         and_then (build_octaves num_scales aspect_ratios num_levels) (\<lambda>octave_scales.
         and_then (build_aspects aspect_ratios num_scales num_levels) (\<lambda>aspects.
         and_then (build_strides feature_sizes features_H features_W num_levels)
           (\<lambda>(strides_y, strides_x).
         and_then (build_scales anchor_scale scale_aspect_ratio_combinations num_levels)
           (\<lambda>anchor_scales.
         Inr ((strides_y, strides_x, octave_scales, aspects, anchor_scales),
              num_levels, scale_aspect_ratio_combinations)))))))"

subsection \<open>compute_box_coordinates\<close>

text \<open>
  \<open>np.arange(start, stop, step)\<close> on floats: \<open>ceil((stop - start) / step)\<close> values
  \<open>start + i * step\<close>, none when that number is not positive. The quotient is
  computed in floating point: when it is NaN (cannot compute length) or infinite
  (maximum allowed size exceeded) the call raises ValueError; a zero step gives such a
  quotient. The length is computed exactly here, with no limit on the size of the array.
  (An infinite step between finite bounds does not arise below, where the start is half
  the step.)
\<close>

definition np_arange :: "npfloat \<Rightarrow> npfloat \<Rightarrow> npfloat \<Rightarrow> error + npfloat list" where
  "np_arange start stop step =
     (case fdiv (fsub stop start) step of
        Fin v \<Rightarrow> Inr (map (\<lambda>i. fadd start (fmul (Fin (real i)) step)) [0..<nat \<lceil>v\<rceil>])
      | PInf \<Rightarrow> Inl ValueError
      | NInf \<Rightarrow> Inl ValueError
      | NaN \<Rightarrow> Inl ValueError)"

text \<open>
  \<open>np.meshgrid(x, y)\<close>: two arrays of \<open>len(y)\<close> rows and \<open>len(x)\<close> columns; the
  first holds \<open>x\<close> in every row, the second \<open>y[i]\<close> all along row \<open>i\<close>.
\<close>

definition meshgrid ::
  "npfloat list \<Rightarrow> npfloat list \<Rightarrow> npfloat list list \<times> npfloat list list" where
  "meshgrid x y = (replicate (length y) x, map (replicate (length x)) y)"

text \<open>
  \<^verbatim>\<open>
  aspect_x = np.sqrt(aspect)
  aspect_y = 1 / aspect_x
  return aspect_x, aspect_y
  \<close>
\<close>

definition compute_aspect_ratio :: "npfloat \<Rightarrow> npfloat \<times> npfloat" where
  "compute_aspect_ratio aspect =
     (let aspect_x = fsqrt aspect;
          aspect_y = fdiv (Fin 1) aspect_x
      in (aspect_x, aspect_y))"

text \<open>
  \<^verbatim>\<open>
  W, H = image_size
  base_anchor_x = anchor_scale * stride_x * (2 ** octave_scale)
  base_anchor_y = anchor_scale * stride_y * (2 ** octave_scale)
  aspect_x, aspect_y = compute_aspect_ratio(aspect)
  anchor_x = (base_anchor_x * aspect_x / 2.0) / H
  anchor_y = (base_anchor_y * aspect_y / 2.0) / W
  x = np.arange(stride_x / 2, H, stride_x)
  y = np.arange(stride_y / 2, W, stride_y)
  center_x, center_y = np.meshgrid(x, y)
  center_x = center_x.reshape(-1) / H
  center_y = center_y.reshape(-1) / W
  return center_x, center_y, anchor_x, anchor_y
  \<close>
  The five scalars are numpy floats (entries of the configuration arrays), the image size
  a pair of Python integers. \<open>reshape(-1)\<close> puts the rows one after the other.
\<close>

definition compute_box_coordinates ::
  "npfloat \<Rightarrow> npfloat \<Rightarrow> npfloat \<Rightarrow> npfloat \<Rightarrow> npfloat \<Rightarrow> int \<times> int
     \<Rightarrow> error + npfloat list \<times> npfloat list \<times> npfloat \<times> npfloat" where
  "compute_box_coordinates stride_y stride_x octave_scale aspect anchor_scale image_size =
     (case image_size of (W, H) \<Rightarrow>
        (let base_anchor_x = fmul (fmul anchor_scale stride_x) (fpow2 octave_scale);
             base_anchor_y = fmul (fmul anchor_scale stride_y) (fpow2 octave_scale)
         in case compute_aspect_ratio aspect of (aspect_x, aspect_y) \<Rightarrow>
           (let anchor_x = fdiv (fdiv (fmul base_anchor_x aspect_x) (Fin 2)) (float_of_int H);
                anchor_y = fdiv (fdiv (fmul base_anchor_y aspect_y) (Fin 2)) (float_of_int W)
            in and_then (np_arange (fdiv stride_x (Fin 2)) (float_of_int H) stride_x) (\<lambda>x.
               and_then (np_arange (fdiv stride_y (Fin 2)) (float_of_int W) stride_y) (\<lambda>y.
               case meshgrid x y of (center_x, center_y) \<Rightarrow>
                 Inr (map (\<lambda>c. fdiv c (float_of_int H)) (concat center_x),
                      map (\<lambda>c. fdiv c (float_of_int W)) (concat center_y),
                      anchor_x, anchor_y))))))"

subsection \<open>generate_level_boxes\<close>

type_synonym box = "npfloat \<times> npfloat \<times> npfloat \<times> npfloat"

text \<open>
  \<^verbatim>\<open>
  boxes_level = []
  for combination in range(scale_aspect_ratio_combinations):
      box_coordinates = compute_box_coordinates(
          strides_y[combination], strides_x[combination],
          octave_scales[combination], aspects[combination],
          anchor_scales[combination], image_size)
      center_x, center_y, anchor_x, anchor_y = box_coordinates
      boxes = np.vstack((center_x - anchor_x, center_y - anchor_y,
                         center_x + anchor_x, center_y + anchor_y))
      boxes = np.swapaxes(boxes, 0, 1)
      boxes_level.append(np.expand_dims(boxes, axis=1))
  return boxes_level
  \<close>
  The two centre arrays have the same length (both are a flattened meshgrid), so the
  stacked and swapped array has one row of four entries per grid point.
\<close>

definition corner_box :: "npfloat \<Rightarrow> npfloat \<Rightarrow> npfloat \<Rightarrow> npfloat \<Rightarrow> box" where
  "corner_box anchor_x anchor_y center_x center_y =
     (fsub center_x anchor_x, fsub center_y anchor_y,
      fadd center_x anchor_x, fadd center_y anchor_y)"

definition generate_level_boxes ::
  "npfloat list \<Rightarrow> npfloat list \<Rightarrow> npfloat list \<Rightarrow> npfloat list \<Rightarrow> npfloat list
     \<Rightarrow> int \<times> int \<Rightarrow> int \<Rightarrow> error + box list list" where
  "generate_level_boxes strides_y strides_x octave_scales aspects anchor_scales image_size
       scale_aspect_ratio_combinations =
     for_each (\<lambda>combination.
       and_then (index strides_y combination) (\<lambda>stride_y.
       and_then (index strides_x combination) (\<lambda>stride_x.
       and_then (index octave_scales combination) (\<lambda>octave_scale.
       and_then (index aspects combination) (\<lambda>aspect.
       and_then (index anchor_scales combination) (\<lambda>anchor_scale.
       and_then (compute_box_coordinates stride_y stride_x octave_scale aspect
                   anchor_scale image_size)
         (\<lambda>(center_x, center_y, anchor_x, anchor_y).
           Inr (map2 (corner_box anchor_x anchor_y) center_x center_y))))))))
       [0..<nat scale_aspect_ratio_combinations]"

subsection \<open>generate_anchors\<close>

text \<open>
  \<open>np.concatenate(boxes_level, axis=1)\<close> on arrays of shape \<open>(G, 1, 4)\<close>: entry
  \<open>g\<close> of the result holds the rows \<open>g\<close> of all the arrays, in the order of the list.
  An empty list, or arrays of different \<open>G\<close>, raise ValueError.
\<close>

definition concatenate_axis1 :: "'a list list \<Rightarrow> error + 'a list list" where
  "concatenate_axis1 arrays =
     (case arrays of
        [] \<Rightarrow> Inl ValueError
      | a # rest \<Rightarrow>
          if list_all (\<lambda>b. length b = length a) rest
          then Inr (map (\<lambda>g. map (\<lambda>b. b ! g) arrays) [0..<length a])
          else Inl ValueError)"

text \<open>\<open>np.vstack\<close> of a list of arrays of four columns: ValueError on an empty list.\<close>

definition vstack :: "'a list list \<Rightarrow> error + 'a list" where
  "vstack arrays = (if arrays = [] then Inl ValueError else Inr (concat arrays))"

text \<open>
  \<open>a.astype('float32')\<close>: a finite value whose magnitude reaches
  \<open>2^128 - 2^103\<close>, halfway between the largest float32 \<open>2^128 - 2^104\<close> and
  \<open>2^128\<close>, becomes the infinity of its sign (with a warning, not an exception); NaN
  and the infinities stay. The rounding of the other values to 24 bits is not modelled.
\<close>

definition float32 :: "npfloat \<Rightarrow> npfloat" where
  "float32 a =
     (case a of
        Fin x \<Rightarrow> if 2 ^ 128 - 2 ^ 103 \<le> \<bar>x\<bar> then inf_of (x < 0) else Fin x
      | PInf \<Rightarrow> PInf
      | NInf \<Rightarrow> NInf
      | NaN \<Rightarrow> NaN)"

definition astype_float32 :: "box list \<Rightarrow> box list" where
  "astype_float32 boxes =
     map (\<lambda>(x_min, y_min, x_max, y_max).
            (float32 x_min, float32 y_min, float32 x_max, float32 y_max)) boxes"

text \<open>
  \<^verbatim>\<open>
  configuration = generate_configurations(
      feature_sizes, min_level, max_level, num_scales,
      aspect_ratios, anchor_scales)
  ((strides_y, strides_x, octave_scales, aspects, anchor_scales),
      num_levels, scale_aspect_ratio_combinations) = configuration
  boxes_all = []
  for level in range(num_levels):
      boxes_level = generate_level_boxes(
          strides_y[level], strides_x[level], octave_scales[level],
          aspects[level], anchor_scales[level], image_size,
          scale_aspect_ratio_combinations)
      boxes_level = np.concatenate(boxes_level, axis=1)
      boxes_all.append(boxes_level.reshape([-1, 4]))
  anchors = np.vstack(boxes_all).astype('float32')
  return anchors
  \<close>
\<close>

definition generate_anchors ::
  "ndarray \<Rightarrow> int \<Rightarrow> int \<Rightarrow> int \<Rightarrow> npfloat list \<Rightarrow> int \<times> int \<Rightarrow> npfloat list
     \<Rightarrow> error + box list" where
  "generate_anchors feature_sizes min_level max_level num_scales aspect_ratios image_size
       anchor_scales =
     and_then (generate_configurations feature_sizes min_level max_level num_scales
                 aspect_ratios anchor_scales)
       (\<lambda>((strides_y, strides_x, octave_scales, aspects, anchor_scales),
           num_levels, scale_aspect_ratio_combinations).
     and_then (for_each (\<lambda>level.
         and_then (index strides_y level) (\<lambda>level_strides_y.
         and_then (index strides_x level) (\<lambda>level_strides_x.
         and_then (index octave_scales level) (\<lambda>level_octave_scales.
         and_then (index aspects level) (\<lambda>level_aspects.
         and_then (index anchor_scales level) (\<lambda>level_anchor_scales.
         and_then (generate_level_boxes level_strides_y level_strides_x
                     level_octave_scales level_aspects level_anchor_scales image_size
                     scale_aspect_ratio_combinations) (\<lambda>boxes_level.
         and_then (concatenate_axis1 boxes_level) (\<lambda>boxes_level.
         Inr (concat boxes_level)))))))))
       [0..<nat num_levels]) (\<lambda>boxes_all.
     and_then (vstack boxes_all) (\<lambda>anchors.
     Inr (astype_float32 anchors))))"

subsection \<open>build_prior_boxes\<close>

text \<open>
  Modelled from the spec: \<open>to_center_form\<close> of \<open>paz.backend.boxes\<close>, which the
  module imports and whose source is not at hand. The specification describes it as the
  conversion of corner form (min-corner, max-corner) into centre form
  \<open>(cx, cy, w, h)\<close> (centre, width, height), row by row. Its arithmetic is exact, as
  everywhere here.
\<close>

definition to_center_form_box :: "box \<Rightarrow> box" where
  "to_center_form_box b =
     (case b of (x_min, y_min, x_max, y_max) \<Rightarrow>
        (fdiv (fadd x_max x_min) (Fin 2), fdiv (fadd y_max y_min) (Fin 2),
         fsub x_max x_min, fsub y_max y_min))"

definition to_center_form :: "box list \<Rightarrow> box list" where
  "to_center_form boxes = map to_center_form_box boxes"

text \<open>
  \<^verbatim>\<open>
  anchor_scales = np.repeat(anchor_scale, max_level - min_level + 1)
  feature_sizes = compute_feature_sizes(image_size, max_level)
  prior_boxes = generate_anchors(
      feature_sizes, min_level, max_level, num_scales, aspect_ratios,
      image_size, anchor_scales)
  prior_boxes = to_center_form(prior_boxes)
  return prior_boxes
  \<close>
\<close>

definition build_prior_boxes ::
  "int \<Rightarrow> int \<Rightarrow> int \<Rightarrow> npfloat list \<Rightarrow> npfloat \<Rightarrow> int \<times> int \<Rightarrow> error + box list" where
  "build_prior_boxes min_level max_level num_scales aspect_ratios anchor_scale image_size =
     and_then (np_repeat [anchor_scale] (max_level - min_level + 1)) (\<lambda>anchor_scales.
     and_then (compute_feature_sizes image_size max_level) (\<lambda>feature_sizes.
     and_then (generate_anchors feature_sizes min_level max_level num_scales
                 aspect_ratios image_size anchor_scales) (\<lambda>prior_boxes.
     Inr (to_center_form prior_boxes))))"

section \<open>Notions used in the statements\<close>

text \<open>
  The size of one dimension of the feature map of a level: the image extent, halved
  \<open>level\<close> times by the rule of the loop of \<open>compute_feature_sizes\<close>; and the row
  of the array of feature sizes for a level.
\<close>

definition feature_size_at :: "int \<Rightarrow> nat \<Rightarrow> int" where
  "feature_size_at extent level = (downsample ^^ level) extent"

definition feature_row :: "int \<times> int \<Rightarrow> nat \<Rightarrow> npfloat list" where
  "feature_row image_size level =
     [float_of_int (feature_size_at (fst image_size) level),
      float_of_int (feature_size_at (snd image_size) level)]"

text \<open>
  The levels \<open>min_level, ..., max_level\<close>, and the stride of a level in one dimension as
  \<open>build_strides\<close> computes it: the image extent times the reciprocal of the feature
  size.
\<close>

definition level_range :: "int \<Rightarrow> int \<Rightarrow> nat list" where
  "level_range min_level max_level = [nat min_level..<Suc (nat max_level)]"

definition stride_at :: "int \<Rightarrow> nat \<Rightarrow> npfloat" where
  "stride_at extent level =
     fmul (float_of_int extent) (reciprocal (float_of_int (feature_size_at extent level)))"

text \<open>
  The combinations of one level as the specification words them: the octave scales
  \<open>[s0, s0, ..., s1, s1, ...]\<close>, each scale once per aspect ratio, where scale \<open>s\<close> is
  the index divided by \<open>num_scales\<close>; the aspects \<open>[a0, a1, ..., a0, a1, ...]\<close>, the
  aspect ratios once per scale; and their number.
\<close>

definition octave_scale_entries :: "int \<Rightarrow> npfloat list \<Rightarrow> npfloat list" where
  "octave_scale_entries num_scales aspect_ratios =
     concat (map (\<lambda>s. replicate (length aspect_ratios)
                         (fdiv (Fin (real s)) (float_of_int num_scales)))
               [0..<nat num_scales])"

definition aspect_entries :: "int \<Rightarrow> npfloat list \<Rightarrow> npfloat list" where
  "aspect_entries num_scales aspect_ratios = concat (replicate (nat num_scales) aspect_ratios)"

definition combinations_count :: "int \<Rightarrow> npfloat list \<Rightarrow> nat" where
  "combinations_count num_scales aspect_ratios = nat num_scales * length aspect_ratios"

text \<open>
  The half-width and half-height of an anchor as the specification gives them:
  \<open>base_x * aspect_x / 2 / H\<close> and \<open>base_y * aspect_y / 2 / W\<close>, where
  \<open>(W, H)\<close> is the image size, \<open>base = anchor_scale * stride * 2^octave_scale\<close>,
  \<open>aspect_x = sqrt(aspect)\<close> and \<open>aspect_y = 1 / aspect_x\<close>.
\<close>

definition anchor_extents ::
  "npfloat \<Rightarrow> npfloat \<Rightarrow> npfloat \<Rightarrow> npfloat \<Rightarrow> npfloat \<Rightarrow> int \<times> int \<Rightarrow> npfloat \<times> npfloat" where
  "anchor_extents stride_y stride_x octave_scale aspect anchor_scale image_size =
     (fdiv (fdiv (fmul (fmul (fmul anchor_scale stride_x) (fpow2 octave_scale))
                    (fsqrt aspect)) (Fin 2)) (float_of_int (snd image_size)),
      fdiv (fdiv (fmul (fmul (fmul anchor_scale stride_y) (fpow2 octave_scale))
                    (fdiv (Fin 1) (fsqrt aspect))) (Fin 2)) (float_of_int (fst image_size)))"

text \<open>
  The centres of one dimension for a positive stride: \<open>stride / 2 + i * stride\<close> as
  long as it is below the extent, divided by the extent; and the grid points of a level,
  row by row (all the \<open>x\<close> for the first \<open>y\<close>, then for the second, ...).
\<close>

definition grid_count :: "real \<Rightarrow> int \<Rightarrow> nat" where
  "grid_count stride extent = nat \<lceil>(real_of_int extent - stride / 2) / stride\<rceil>"

definition center_coordinates :: "real \<Rightarrow> int \<Rightarrow> npfloat list" where
  "center_coordinates stride extent =
     map (\<lambda>i. Fin ((stride / 2 + real i * stride) / real_of_int extent))
       [0..<grid_count stride extent]"

definition grid_points :: "npfloat list \<Rightarrow> npfloat list \<Rightarrow> (npfloat \<times> npfloat) list" where
  "grid_points xs ys = concat (map (\<lambda>y. map (\<lambda>x. (x, y)) xs) ys)"

text \<open>
  The anchors in the order of the specification: level-major, then grid-position-major,
  then combination-minor. \<open>stride_real\<close> is the stride of a level as a real number;
  \<open>float64_corner_anchor\<close> is the corner-form box of one grid point and one
  combination as \<open>generate_level_boxes\<close> computes it, \<open>corner_anchor\<close> that box in
  the float32 array of anchors; the prior boxes are the corner-form anchors converted to
  centre form.
\<close>

definition stride_real :: "int \<Rightarrow> nat \<Rightarrow> real" where
  "stride_real extent level = real_of_int extent / real_of_int (feature_size_at extent level)"

definition float64_corner_anchor ::
  "npfloat \<Rightarrow> npfloat \<Rightarrow> npfloat \<Rightarrow> int \<times> int \<Rightarrow> npfloat \<times> npfloat \<Rightarrow> npfloat \<times> npfloat \<Rightarrow> box" where
  "float64_corner_anchor stride_y stride_x anchor_scale image_size center combination =
     (case center of (center_x, center_y) \<Rightarrow>
      case combination of (octave_scale, aspect) \<Rightarrow>
      case anchor_extents stride_y stride_x octave_scale aspect anchor_scale image_size of
        (half_width, half_height) \<Rightarrow> corner_box half_width half_height center_x center_y)"

definition corner_anchor ::
  "npfloat \<Rightarrow> npfloat \<Rightarrow> npfloat \<Rightarrow> int \<times> int \<Rightarrow> npfloat \<times> npfloat \<Rightarrow> npfloat \<times> npfloat \<Rightarrow> box" where
  "corner_anchor stride_y stride_x anchor_scale image_size center combination =
     (case float64_corner_anchor stride_y stride_x anchor_scale image_size center combination of
        (x_min, y_min, x_max, y_max) \<Rightarrow>
          (float32 x_min, float32 y_min, float32 x_max, float32 y_max))"

definition float64_level_corner_anchors ::
  "int \<Rightarrow> npfloat list \<Rightarrow> npfloat \<Rightarrow> int \<times> int \<Rightarrow> nat \<Rightarrow> box list" where
  "float64_level_corner_anchors num_scales aspect_ratios anchor_scale image_size level =
     (let stride_y = stride_real (fst image_size) level;
          stride_x = stride_real (snd image_size) level
      in concat (map (\<lambda>center.
           map (float64_corner_anchor (Fin stride_y) (Fin stride_x) anchor_scale image_size
                  center)
             (zip (octave_scale_entries num_scales aspect_ratios)
                  (aspect_entries num_scales aspect_ratios)))
           (grid_points (center_coordinates stride_x (snd image_size))
                        (center_coordinates stride_y (fst image_size)))))"

definition level_corner_anchors ::
  "int \<Rightarrow> npfloat list \<Rightarrow> npfloat \<Rightarrow> int \<times> int \<Rightarrow> nat \<Rightarrow> box list" where
  "level_corner_anchors num_scales aspect_ratios anchor_scale image_size level =
     (let stride_y = stride_real (fst image_size) level;
          stride_x = stride_real (snd image_size) level
      in concat (map (\<lambda>center.
           map (corner_anchor (Fin stride_y) (Fin stride_x) anchor_scale image_size center)
             (zip (octave_scale_entries num_scales aspect_ratios)
                  (aspect_entries num_scales aspect_ratios)))
           (grid_points (center_coordinates stride_x (snd image_size))
                        (center_coordinates stride_y (fst image_size)))))"

definition ordered_corner_anchors ::
  "int \<Rightarrow> int \<Rightarrow> int \<Rightarrow> npfloat list \<Rightarrow> npfloat \<Rightarrow> int \<times> int \<Rightarrow> box list" where
  "ordered_corner_anchors min_level max_level num_scales aspect_ratios anchor_scale image_size =
     concat (map (level_corner_anchors num_scales aspect_ratios anchor_scale image_size)
               (level_range min_level max_level))"

definition ordered_prior_boxes ::
  "int \<Rightarrow> int \<Rightarrow> int \<Rightarrow> npfloat list \<Rightarrow> npfloat \<Rightarrow> int \<times> int \<Rightarrow> box list" where
  "ordered_prior_boxes min_level max_level num_scales aspect_ratios anchor_scale image_size =
     map to_center_form_box
       (ordered_corner_anchors min_level max_level num_scales aspect_ratios anchor_scale
          image_size)"

text \<open>
  The number of anchors the specification states: over the levels, the grid points of the
  level (feature height times feature width) times the number of scales times the number
  of aspect ratios.
\<close>

definition anchor_count :: "int \<Rightarrow> int \<Rightarrow> int \<Rightarrow> npfloat list \<Rightarrow> int \<times> int \<Rightarrow> nat" where
  "anchor_count min_level max_level num_scales aspect_ratios image_size =
     (\<Sum>level\<leftarrow>level_range min_level max_level.
        nat (feature_size_at (fst image_size) level) *
        nat (feature_size_at (snd image_size) level) *
        nat num_scales * length aspect_ratios)"

text \<open>A float that is finite and greater than zero.\<close>

fun is_positive :: "npfloat \<Rightarrow> bool" where
  "is_positive (Fin x) = (0 < x)"
| "is_positive PInf = False"
| "is_positive NInf = False"
| "is_positive NaN = False"

text \<open>
  An anchor scale \<open>s\<close> and an aspect ratio \<open>r\<close>, both finite and positive, of a
  moderate anchor: \<open>1/2 \<le> s * sqrt r \<le> 2^19\<close> and \<open>1/2 \<le> s / sqrt r \<le> 2^19\<close>,
  written without the square root. The anchors of such a pair are at least half a grid
  cell and less than \<open>2^20\<close> images wide and high, far inside the float32 range.
\<close>

fun moderate_anchor :: "npfloat \<Rightarrow> npfloat \<Rightarrow> bool" where
  "moderate_anchor (Fin s) (Fin r) =
     (0 < s \<and> 0 < r \<and> 1 \<le> 4 * (s * s * r) \<and> s * s * r \<le> 2 ^ 38 \<and>
      r \<le> 4 * (s * s) \<and> s * s \<le> 2 ^ 38 * r)"
| "moderate_anchor _ _ = False"

section \<open>Properties\<close>

subsection \<open>Results and loops\<close>

lemma and_then_Inr [simp]: "and_then (Inr x) f = f x"
  by (simp add: and_then_def)

lemma and_then_Inl [simp]: "and_then (Inl e) f = Inl e"
  by (simp add: and_then_def)

lemma and_then_eq_Inr:
  "and_then m f = Inr y \<longleftrightarrow> (\<exists>x. m = Inr x \<and> f x = Inr y)"
  by (cases m) simp_all

lemma for_each_all_Inr:
  "(\<And>x. x \<in> set xs \<Longrightarrow> f x = Inr (g x)) \<Longrightarrow> for_each f xs = Inr (map g xs)"
  by (induction xs) simp_all

lemma for_each_Inr_elem:
  "for_each f xs = Inr ys \<Longrightarrow> x \<in> set xs \<Longrightarrow> \<exists>y. f x = Inr y"
proof (induction xs arbitrary: ys)
  case Nil
  then show ?case by simp
next
  case (Cons a xs)
  from Cons.prems(1) obtain y ys' where a: "f a = Inr y" and r: "for_each f xs = Inr ys'"
    by (auto simp: and_then_eq_Inr)
  show ?case
  proof (cases "x = a")
    case True
    with a show ?thesis by blast
  next
    case False
    with Cons.prems(2) have "x \<in> set xs" by simp
    with Cons.IH r show ?thesis by blast
  qed
qed

subsection \<open>The feature sizes\<close>

lemma feature_size_at_0 [simp]: "feature_size_at h 0 = h"
  by (simp add: feature_size_at_def)

lemma feature_size_at_Suc: "feature_size_at h (Suc l) = downsample (feature_size_at h l)"
  by (simp add: feature_size_at_def)

lemma feature_size_at_Suc': "feature_size_at (downsample h) l = feature_size_at h (Suc l)"
  by (simp add: feature_size_at_def funpow_swap1)

lemma downsample_pos: "1 \<le> h \<Longrightarrow> 1 \<le> downsample h"
  unfolding downsample_def by linarith

lemma feature_size_at_pos: "1 \<le> h \<Longrightarrow> 1 \<le> feature_size_at h l"
  by (induction l) (simp_all add: feature_size_at_Suc downsample_pos)

lemma vstack2_row:
  "list_all (\<lambda>r. length r = 2) (atleast_2d a) \<Longrightarrow> atleast_2d a \<noteq> [] \<Longrightarrow>
   vstack2 a (Arr1 [x, y]) = Inr (Arr2 (atleast_2d a @ [[x, y]]))"
  by (cases "atleast_2d a") (auto simp: vstack2_def Let_def list_all_iff)

lemma feature_loop_Arr2:
  "list_all (\<lambda>r. length r = 2) rows \<Longrightarrow> rows \<noteq> [] \<Longrightarrow>
   feature_loop n (feature_size_at h k) (feature_size_at w k) (Arr2 rows) =
     Inr (Arr2 (rows @ map (feature_row (h, w)) [Suc k..<Suc k + n]))"
proof (induction n arbitrary: k rows)
  case 0
  then show ?case by simp
next
  case (Suc n)
  let ?row = "feature_row (h, w) (Suc k)"
  have v: "vstack2 (Arr2 rows) (Arr1 ?row) = Inr (Arr2 (rows @ [?row]))"
    using Suc.prems vstack2_row [of "Arr2 rows"] by (simp add: feature_row_def)
  have "feature_loop (Suc n) (feature_size_at h k) (feature_size_at w k) (Arr2 rows) =
      feature_loop n (feature_size_at h (Suc k)) (feature_size_at w (Suc k)) (Arr2 (rows @ [?row]))"
    using v by (simp add: Let_def feature_size_at_Suc feature_row_def)
  also have "\<dots> = Inr (Arr2 ((rows @ [?row]) @ map (feature_row (h, w)) [Suc (Suc k)..<Suc (Suc k) + n]))"
    using Suc.prems by (intro Suc.IH) (simp_all add: feature_row_def)
  also have "(rows @ [?row]) @ map (feature_row (h, w)) [Suc (Suc k)..<Suc (Suc k) + n]
      = rows @ map (feature_row (h, w)) [Suc k..<Suc k + Suc n]"
    by (simp add: upt_conv_Cons del: upt_Suc)
  finally show ?case .
qed

text \<open>
  For a maximum level of at least 1 the result is the two-dimensional array of the
  \<open>max_level + 1\<close> rows \<open>(H, W)\<close>, \<open>(downsample H, downsample W)\<close>, ...: row
  \<open>level\<close> holds the image height and width downsampled \<open>level\<close> times. No call of
  \<open>np.vstack\<close> fails.
\<close>

lemma compute_feature_sizes_levels:
  assumes "1 \<le> max_level"
  shows "compute_feature_sizes image_size max_level =
     Inr (Arr2 (map (feature_row image_size) [0..<Suc (nat max_level)]))"
proof -
  obtain H W where hw: "image_size = (H, W)" by (cases image_size)
  from assms obtain n where n: "nat max_level = Suc n" by (cases "nat max_level") auto
  let ?r0 = "feature_row (H, W) 0" and ?r1 = "feature_row (H, W) 1"
  have v: "vstack2 (Arr1 ?r0) (Arr1 ?r1) = Inr (Arr2 [?r0, ?r1])"
    by (simp add: vstack2_def feature_row_def)
  have "compute_feature_sizes image_size max_level =
      feature_loop n (feature_size_at H 1) (feature_size_at W 1) (Arr2 [?r0, ?r1])"
    unfolding compute_feature_sizes_def hw n using v
    by (simp add: Let_def feature_row_def feature_size_at_def)
  also have "\<dots> = Inr (Arr2 ([?r0, ?r1] @ map (feature_row (H, W)) [Suc 1..<Suc 1 + n]))"
    by (intro feature_loop_Arr2) (simp_all add: feature_row_def)
  also have "[?r0, ?r1] @ map (feature_row (H, W)) [Suc 1..<Suc 1 + n]
      = map (feature_row (H, W)) [0..<Suc (Suc n)]"
    by (simp add: upt_conv_Cons del: upt_Suc)
  finally show ?thesis by (simp add: hw n)
qed

lemma compute_feature_sizes_flat:
  "max_level \<le> 0 \<Longrightarrow> compute_feature_sizes (H, W) max_level = Inr (Arr1 [float_of_int H, float_of_int W])"
  by (simp add: compute_feature_sizes_def)

text \<open>The example of the specification.\<close>

lemma compute_feature_sizes_example:
  "compute_feature_sizes (300, 300) 1 = Inr (Arr2 [[Fin 300, Fin 300], [Fin 150, Fin 150]])"
  by (simp add: compute_feature_sizes_def vstack2_def Let_def downsample_def float_of_int_def)

text \<open>
  Claim C4: for every image size and every maximum level \<open>L \<ge> 0\<close>,
  \<open>compute_feature_sizes\<close> returns exactly \<open>L + 1\<close> (height, width) pairs, the first
  being the image size. At \<open>L = 0\<close> the loop does not run, \<open>np.vstack\<close> is never
  called, and the result is the initial one-dimensional array of the two numbers
  \<open>H\<close> and \<open>W\<close>, not an array of one row: the function's docstring promises a
  two-dimensional array, and \<open>build_features\<close> indexes the result with \<open>[:, 0]\<close>.
\<close>

theorem compute_feature_sizes_level_0_flat:
  "compute_feature_sizes (300, 300) 0 = Inr (Arr1 [Fin 300, Fin 300])"
  by (simp add: compute_feature_sizes_def float_of_int_def)

subsection \<open>The configuration arrays\<close>

lemma chunks_concat:
  "(\<And>r. r \<in> set rows \<Longrightarrow> length r = c) \<Longrightarrow> chunks c (length rows) (concat rows) = rows"
  by (induction rows) simp_all

lemma length_concat_same:
  "(\<And>r. r \<in> set rows \<Longrightarrow> length r = c) \<Longrightarrow> length (concat rows) = length rows * c"
  by (induction rows) simp_all

lemma reshape_rows_concat:
  assumes "rows \<noteq> []" and same: "\<And>r. r \<in> set rows \<Longrightarrow> length r = c"
    and n: "n = int (length rows)"
  shows "reshape_rows n (concat rows) = Inr rows"
proof -
  have len: "length (concat rows) = length rows * c"
    using same by (rule length_concat_same)
  have pos: "0 < length rows" using assms(1) by simp
  have "length (concat rows) div length rows = c"
    using len pos by simp
  moreover have "int (length (concat rows)) mod int (length rows) = 0"
    using len by (simp add: zmod_int [symmetric] del: of_nat_mult)
  ultimately show ?thesis
    using pos same by (simp add: reshape_rows_def n chunks_concat)
qed

lemma length_chunks [simp]: "length (chunks c n xs) = n"
  by (induction n arbitrary: xs) simp_all

lemma chunks_lengths:
  "length xs = n * c \<Longrightarrow> r \<in> set (chunks c n xs) \<Longrightarrow> length r = c"
proof (induction n arbitrary: xs)
  case 0
  then show ?case by simp
next
  case (Suc n)
  have "length (drop c xs) = n * c" using Suc.prems(1) by simp
  with Suc.IH have "r \<in> set (chunks c n (drop c xs)) \<Longrightarrow> length r = c" by blast
  with Suc.prems show ?case by auto
qed

lemma reshape_rows_Inr_D:
  assumes "reshape_rows n xs = Inr rows"
  shows "0 < n" and "length rows = nat n"
    and "\<And>r. r \<in> set rows \<Longrightarrow> length r = length xs div nat n"
proof -
  from assms have n: "0 < n" and m: "int (length xs) mod n = 0"
    and rows: "rows = chunks (length xs div nat n) (nat n) xs"
    by (auto simp: reshape_rows_def split: if_splits)
  show "0 < n" by fact
  show "length rows = nat n" by (simp add: rows)
  have "int (length xs) mod int (nat n) = 0" using n m by simp
  then have "length xs mod nat n = 0"
    by (metis of_nat_0 of_nat_eq_iff zmod_int)
  then have "length xs = nat n * (length xs div nat n)"
    by (simp add: mod_eq_0_iff_dvd)
  then show "\<And>r. r \<in> set rows \<Longrightarrow> length r = length xs div nat n"
    unfolding rows by (rule chunks_lengths)
qed

lemma np_repeat_nonneg:
  "0 \<le> k \<Longrightarrow> np_repeat a k = Inr (concat (map (replicate (nat k)) a))"
  by (simp add: np_repeat_def)

lemma np_tile_nat:
  "np_tile a (int k) = Inr (concat (replicate k a))"
  by (simp add: np_tile_def)

lemma np_tile_nonneg:
  "0 \<le> k \<Longrightarrow> np_tile a k = Inr (concat (replicate (nat k) a))"
  by (simp add: np_tile_def)

lemma map_concat_replicate:
  "map f (concat (replicate n xs)) = concat (replicate n (map f xs))"
  by (induction n) simp_all

lemma build_octaves_rows:
  assumes "1 \<le> num_levels"
  shows "build_octaves num_scales aspect_ratios num_levels =
     Inr (replicate (nat num_levels) (octave_scale_entries num_scales aspect_ratios))"
proof -
  let ?row = "octave_scale_entries num_scales aspect_ratios"
  have "reshape_rows num_levels (concat (replicate (nat num_levels) ?row)) =
      Inr (replicate (nat num_levels) ?row)"
    using assms by (intro reshape_rows_concat [where c = "length ?row"]) auto
  then show ?thesis
    using assms
    by (simp add: build_octaves_def np_repeat_nonneg np_tile_nonneg map_concat_replicate
        octave_scale_entries_def map_concat comp_def)
qed

lemma build_aspects_rows:
  assumes "1 \<le> num_levels"
  shows "build_aspects aspect_ratios num_scales num_levels =
     Inr (replicate (nat num_levels) (aspect_entries num_scales aspect_ratios))"
proof -
  let ?row = "aspect_entries num_scales aspect_ratios"
  have "reshape_rows num_levels (concat (replicate (nat num_levels) ?row)) =
      Inr (replicate (nat num_levels) ?row)"
    using assms by (intro reshape_rows_concat [where c = "length ?row"]) auto
  then show ?thesis
    unfolding build_aspects_def np_tile_nat
    using assms by (simp add: np_tile_nonneg aspect_entries_def)
qed

lemma reshape_rows_repeat:
  assumes "xs \<noteq> []" and "n = int (length xs)"
  shows "reshape_rows n (concat (map (replicate c) (map f xs))) =
     Inr (map (\<lambda>x. replicate c (f x)) xs)"
proof -
  have "reshape_rows n (concat (map (\<lambda>x. replicate c (f x)) xs)) =
      Inr (map (\<lambda>x. replicate c (f x)) xs)"
    using assms by (intro reshape_rows_concat [where c = c]) auto
  then show ?thesis by (simp add: comp_def)
qed

lemma build_scales_rows:
  assumes "1 \<le> num_levels" and "0 \<le> combinations"
  shows "build_scales (replicate (nat num_levels) s) combinations num_levels =
     Inr (replicate (nat num_levels) (replicate (nat combinations) s))"
proof -
  let ?xs = "replicate (nat num_levels) s"
  have "reshape_rows num_levels (concat (map (replicate (nat combinations)) (map (\<lambda>x. x) ?xs))) =
      Inr (map (\<lambda>x. replicate (nat combinations) x) ?xs)"
    using assms by (intro reshape_rows_repeat) auto
  then show ?thesis
    using assms by (simp add: build_scales_def np_repeat_nonneg)
qed

lemma py_slice_levels:
  assumes "0 \<le> min_level" and "min_level \<le> max_level"
  shows "py_slice min_level (max_level + 1) (map f [0..<Suc (nat max_level)]) =
     map f (level_range min_level max_level)"
proof -
  have "drop (nat min_level) (map f [0..<Suc (nat max_level)]) =
      map f [nat min_level..<Suc (nat max_level)]"
    by (simp add: drop_map del: upt_Suc)
  then show ?thesis
    using assms by (simp add: py_slice_def level_range_def Let_def min_def del: upt_Suc)
qed

lemma build_features_levels:
  assumes "0 \<le> min_level" and "min_level \<le> max_level" and "0 \<le> combinations"
  shows "build_features (Arr2 (map (feature_row (H, W)) [0..<Suc (nat max_level)]))
       min_level max_level combinations =
     Inr (concat (map (replicate (nat combinations))
            (map (\<lambda>l. float_of_int (feature_size_at H l)) (level_range min_level max_level))),
          concat (map (replicate (nat combinations))
            (map (\<lambda>l. float_of_int (feature_size_at W l)) (level_range min_level max_level))))"
  using assms
  by (simp add: build_features_def py_slice_levels list_all_iff feature_row_def
      np_repeat_nonneg comp_def del: upt_Suc)

lemma length_level_range:
  "0 \<le> min_level \<Longrightarrow> min_level \<le> max_level \<Longrightarrow>
   int (length (level_range min_level max_level)) = max_level + 1 - min_level"
  by (simp add: level_range_def)

lemma build_strides_levels:
  assumes "0 \<le> min_level" and "min_level \<le> max_level"
    and "num_levels = max_level + 1 - min_level"
  shows "build_strides (Arr2 (map (feature_row (H, W)) [0..<Suc (nat max_level)]))
       (concat (map (replicate c)
            (map (\<lambda>l. float_of_int (feature_size_at H l)) (level_range min_level max_level))))
       (concat (map (replicate c)
            (map (\<lambda>l. float_of_int (feature_size_at W l)) (level_range min_level max_level))))
       num_levels =
     Inr (map (\<lambda>l. replicate c (stride_at H l)) (level_range min_level max_level),
          map (\<lambda>l. replicate c (stride_at W l)) (level_range min_level max_level))"
proof -
  let ?ls = "level_range min_level max_level"
  have ne: "?ls \<noteq> []" using assms by (simp add: level_range_def)
  have n: "num_levels = int (length ?ls)"
    using assms by (simp add: length_level_range)
  have first: "unpack_first_row (Arr2 (map (feature_row (H, W)) [0..<Suc (nat max_level)])) =
      Inr (float_of_int H, float_of_int W)"
    by (simp add: upt_conv_Cons feature_row_def del: upt_Suc)
  have y: "reshape_rows num_levels (concat (map (replicate c)
        (map (\<lambda>l. fmul (float_of_int H) (reciprocal (float_of_int (feature_size_at H l)))) ?ls))) =
      Inr (map (\<lambda>l. replicate c (stride_at H l)) ?ls)"
    unfolding stride_at_def using ne n by (rule reshape_rows_repeat)
  have x: "reshape_rows num_levels (concat (map (replicate c)
        (map (\<lambda>l. fmul (float_of_int W) (reciprocal (float_of_int (feature_size_at W l)))) ?ls))) =
      Inr (map (\<lambda>l. replicate c (stride_at W l)) ?ls)"
    unfolding stride_at_def using ne n by (rule reshape_rows_repeat)
  show ?thesis
    using x y by (simp add: build_strides_def first map_concat comp_def del: upt_Suc)
qed

lemma generate_configurations_levels:
  assumes "0 \<le> min_level" and "min_level \<le> max_level"
  shows "generate_configurations (Arr2 (map (feature_row (H, W)) [0..<Suc (nat max_level)]))
       min_level max_level num_scales aspect_ratios
       (replicate (nat (max_level - min_level + 1)) anchor_scale) =
     Inr ((map (\<lambda>l. replicate (combinations_count num_scales aspect_ratios) (stride_at H l))
             (level_range min_level max_level),
           map (\<lambda>l. replicate (combinations_count num_scales aspect_ratios) (stride_at W l))
             (level_range min_level max_level),
           replicate (length (level_range min_level max_level))
             (octave_scale_entries num_scales aspect_ratios),
           replicate (length (level_range min_level max_level))
             (aspect_entries num_scales aspect_ratios),
           replicate (length (level_range min_level max_level))
             (replicate (combinations_count num_scales aspect_ratios) anchor_scale)),
          int (length (level_range min_level max_level)),
          int (combinations_count num_scales aspect_ratios))"
proof -
  let ?n = "max_level + 1 - min_level"
  let ?c = "int (nat num_scales) * int (length aspect_ratios)"
  have n: "1 \<le> ?n" using assms by simp
  have c: "0 \<le> ?c" by simp
  have nc: "nat ?c = combinations_count num_scales aspect_ratios"
    by (simp add: combinations_count_def nat_mult_distrib)
  have "length (level_range min_level max_level) = Suc (nat max_level) - nat min_level"
    unfolding level_range_def by (simp only: length_upt)
  also have "\<dots> = nat ?n" using assms by linarith
  finally have len: "length (level_range min_level max_level) = nat ?n" .
  have e: "max_level - min_level + 1 = ?n" by simp
  have sc: "build_scales (replicate (nat (max_level - min_level + 1)) anchor_scale) ?c ?n =
      Inr (replicate (nat ?n) (replicate (nat ?c) anchor_scale))"
    unfolding e by (rule build_scales_rows [OF n c])
  have cc: "?c = int (combinations_count num_scales aspect_ratios)"
    by (simp add: combinations_count_def)
  have nn: "?n = int (nat ?n)" using n by simp
  show ?thesis
    unfolding generate_configurations_def Let_def
      build_features_levels [OF assms c] build_octaves_rows [OF n] build_aspects_rows [OF n]
      and_then_Inr prod.case
      build_strides_levels [OF assms refl] sc nc len
    using cc nn by simp
qed

subsection \<open>The centre grid and the boxes of a level\<close>

lemma np_arange_centers:
  assumes "0 < s"
  shows "np_arange (fdiv (Fin s) (Fin 2)) (float_of_int e) (Fin s) =
     Inr (map (\<lambda>i. Fin (s / 2 + real i * s)) [0..<grid_count s e])"
  using assms by (simp add: np_arange_def fsub_def float_of_int_def grid_count_def)

lemma grid_count_iff:
  assumes "0 < s"
  shows "i < grid_count s e \<longleftrightarrow> s / 2 + real i * s < real_of_int e"
proof -
  have "i < grid_count s e \<longleftrightarrow> int i < \<lceil>(real_of_int e - s / 2) / s\<rceil>"
    unfolding grid_count_def by linarith
  also have "\<dots> \<longleftrightarrow> real i < (real_of_int e - s / 2) / s"
    by (simp add: less_ceiling_iff)
  also have "\<dots> \<longleftrightarrow> real i * s < real_of_int e - s / 2"
    using assms by (simp add: pos_less_divide_eq)
  finally show ?thesis by linarith
qed

lemma zip_meshgrid:
  "zip (concat (replicate (length ys) xs)) (concat (map (replicate (length xs)) ys)) =
   grid_points xs ys"
  by (induction ys) (simp_all add: grid_points_def zip_replicate2 map_replicate_const [symmetric] zip_map2 zip_same_conv_map comp_def)

lemma map_fdiv_center:
  "e \<noteq> 0 \<Longrightarrow>
   map (\<lambda>c. fdiv c (float_of_int e)) (map (\<lambda>i. Fin (s / 2 + real i * s)) [0..<grid_count s e]) =
   center_coordinates s e"
  by (simp add: center_coordinates_def float_of_int_def comp_def)

lemma compute_box_coordinates_grid:
  assumes "0 < sy" and "0 < sx" and "W \<noteq> 0" and "H \<noteq> 0"
  shows "compute_box_coordinates (Fin sy) (Fin sx) octave_scale aspect anchor_scale (W, H) =
     Inr (concat (replicate (length (center_coordinates sy W)) (center_coordinates sx H)),
          concat (map (replicate (length (center_coordinates sx H))) (center_coordinates sy W)),
          anchor_extents (Fin sy) (Fin sx) octave_scale aspect anchor_scale (W, H))"
proof -
  have lx: "length (center_coordinates sx H) = grid_count sx H"
    and ly: "length (center_coordinates sy W) = grid_count sy W"
    by (simp_all add: center_coordinates_def)
  show ?thesis
    unfolding compute_box_coordinates_def prod.case Let_def compute_aspect_ratio_def
      np_arange_centers [OF assms(1)] np_arange_centers [OF assms(2)] and_then_Inr
      meshgrid_def anchor_extents_def fst_conv snd_conv lx ly
    using assms(3,4)
    by (simp add: map_concat comp_def float_of_int_def center_coordinates_def)
qed

lemma index_replicate: "i < n \<Longrightarrow> index (replicate n x) i = Inr x"
  by (simp add: index_def)

lemma index_nth: "i < length xs \<Longrightarrow> index xs i = Inr (xs ! i)"
  by (simp add: index_def)

lemma map_index_zip:
  "length xs = n \<Longrightarrow> length ys = n \<Longrightarrow>
   map (\<lambda>i. f (xs ! i) (ys ! i)) [0..<n] = map (\<lambda>(x, y). f x y) (zip xs ys)"
  by (auto simp: list_eq_iff_nth_eq)

lemma generate_level_boxes_grid:
  assumes "0 < sy" and "0 < sx" and "W \<noteq> 0" and "H \<noteq> 0"
    and "length octaves = c" and "length aspect_list = c"
  shows "generate_level_boxes (replicate c (Fin sy)) (replicate c (Fin sx)) octaves aspect_list
       (replicate c anchor_scale) (W, H) (int c) =
     Inr (map (\<lambda>combination.
            map (\<lambda>center. float64_corner_anchor (Fin sy) (Fin sx) anchor_scale (W, H) center combination)
              (grid_points (center_coordinates sx H) (center_coordinates sy W)))
          (zip octaves aspect_list))"
proof -
  let ?grid = "grid_points (center_coordinates sx H) (center_coordinates sy W)"
  let ?g = "\<lambda>octave_scale aspect.
      map (\<lambda>center. float64_corner_anchor (Fin sy) (Fin sx) anchor_scale (W, H) center (octave_scale, aspect)) ?grid"
  have "generate_level_boxes (replicate c (Fin sy)) (replicate c (Fin sx)) octaves aspect_list
       (replicate c anchor_scale) (W, H) (int c) =
      Inr (map (\<lambda>i. ?g (octaves ! i) (aspect_list ! i)) [0..<c])"
    unfolding generate_level_boxes_def nat_int
  proof (rule for_each_all_Inr)
    fix i assume "i \<in> set [0..<c]"
    then have i: "i < c" by simp
    obtain hw hh where ext: "anchor_extents (Fin sy) (Fin sx) (octaves ! i) (aspect_list ! i)
        anchor_scale (W, H) = (hw, hh)" by fastforce
    show "and_then (index (replicate c (Fin sy)) i) (\<lambda>stride_y.
       and_then (index (replicate c (Fin sx)) i) (\<lambda>stride_x.
       and_then (index octaves i) (\<lambda>octave_scale.
       and_then (index aspect_list i) (\<lambda>aspect.
       and_then (index (replicate c anchor_scale) i) (\<lambda>anchor_scale.
       and_then (compute_box_coordinates stride_y stride_x octave_scale aspect
                   anchor_scale (W, H))
         (\<lambda>(center_x, center_y, anchor_x, anchor_y).
           Inr (map2 (corner_box anchor_x anchor_y) center_x center_y))))))) =
       Inr (?g (octaves ! i) (aspect_list ! i))"
      using i assms(5,6)
      by (simp add: index_replicate index_nth compute_box_coordinates_grid [OF assms(1-4)]
          ext zip_meshgrid float64_corner_anchor_def)
  qed
  also have "map (\<lambda>i. ?g (octaves ! i) (aspect_list ! i)) [0..<c] =
      map (\<lambda>(x, y). ?g x y) (zip octaves aspect_list)"
    using assms(5,6) by (rule map_index_zip)
  finally show ?thesis by (simp add: case_prod_unfold)
qed

lemma concatenate_axis1_map:
  assumes "ps \<noteq> []"
  shows "concatenate_axis1 (map (\<lambda>p. map (f p) grid) ps) =
     Inr (map (\<lambda>g. map (\<lambda>p. f p g) ps) grid)"
proof -
  obtain p ps' where ps: "ps = p # ps'" using assms by (cases ps) auto
  have "map (\<lambda>i. map (\<lambda>b. b ! i) (map (\<lambda>p. map (f p) grid) ps)) [0..<length grid] =
      map (\<lambda>g. map (\<lambda>p. f p g) ps) grid"
    by (rule nth_equalityI) simp_all
  then show ?thesis
    by (simp add: concatenate_axis1_def ps list_all_iff)
qed

subsection \<open>All levels\<close>

lemma length_octave_scale_entries [simp]:
  "length (octave_scale_entries num_scales aspect_ratios) =
   combinations_count num_scales aspect_ratios"
  by (simp add: octave_scale_entries_def combinations_count_def length_concat comp_def
      sum_list_triv)

lemma length_aspect_entries [simp]:
  "length (aspect_entries num_scales aspect_ratios) =
   combinations_count num_scales aspect_ratios"
  by (simp add: aspect_entries_def combinations_count_def length_concat sum_list_replicate)

lemma stride_real_pos: "1 \<le> e \<Longrightarrow> 0 < stride_real e l"
  using feature_size_at_pos [of e l] by (simp add: stride_real_def)

lemma stride_at_real: "1 \<le> e \<Longrightarrow> stride_at e l = Fin (stride_real e l)"
  using feature_size_at_pos [of e l]
  by (simp add: stride_at_def stride_real_def reciprocal_def float_of_int_def)

lemma map_nth_list: "map (\<lambda>i. f (xs ! i)) [0..<length xs] = map f xs"
  by (rule nth_equalityI) simp_all

lemma level_boxes_concat:
  assumes "1 \<le> H" and "1 \<le> W" and "0 < combinations_count num_scales aspect_ratios"
  shows "and_then (generate_level_boxes
        (replicate (combinations_count num_scales aspect_ratios) (stride_at H l))
        (replicate (combinations_count num_scales aspect_ratios) (stride_at W l))
        (octave_scale_entries num_scales aspect_ratios)
        (aspect_entries num_scales aspect_ratios)
        (replicate (combinations_count num_scales aspect_ratios) anchor_scale) (H, W)
        (int (combinations_count num_scales aspect_ratios)))
      (\<lambda>boxes_level. and_then (concatenate_axis1 boxes_level)
         (\<lambda>boxes_level. Inr (concat boxes_level))) =
     Inr (float64_level_corner_anchors num_scales aspect_ratios anchor_scale (H, W) l)"
proof -
  let ?combos = "zip (octave_scale_entries num_scales aspect_ratios)
      (aspect_entries num_scales aspect_ratios)"
  have ne: "?combos \<noteq> []"
    using assms(3) by (metis length_0_conv length_aspect_entries length_octave_scale_entries
        length_zip less_numeral_extra(3) min.idem)
  have sy: "0 < stride_real H l" and sx: "0 < stride_real W l"
    using assms by (simp_all add: stride_real_pos)
  have h: "H \<noteq> 0" and w: "W \<noteq> 0" using assms by auto
  show ?thesis
    unfolding stride_at_real [OF assms(1)] stride_at_real [OF assms(2)]
      generate_level_boxes_grid [OF sy sx h w length_octave_scale_entries length_aspect_entries]
      and_then_Inr concatenate_axis1_map [OF ne]
    by (simp add: float64_level_corner_anchors_def Let_def)
qed

lemma astype_float32_map:
  "astype_float32 =
     map (\<lambda>(x_min, y_min, x_max, y_max).
            (float32 x_min, float32 y_min, float32 x_max, float32 y_max))"
  by (rule ext) (simp add: astype_float32_def)

lemma astype_float32_concat:
  "astype_float32 (concat boxes) = concat (map astype_float32 boxes)"
  unfolding astype_float32_map by (simp add: map_concat)

lemma corner_anchor_combination:
  "corner_anchor stride_y stride_x anchor_scale image_size center =
     (\<lambda>combination.
        case float64_corner_anchor stride_y stride_x anchor_scale image_size center combination of
          (x_min, y_min, x_max, y_max) \<Rightarrow>
            (float32 x_min, float32 y_min, float32 x_max, float32 y_max))"
  by (rule ext) (simp add: corner_anchor_def)

lemma astype_float32_level:
  "astype_float32 (float64_level_corner_anchors num_scales aspect_ratios anchor_scale
       image_size level) =
     level_corner_anchors num_scales aspect_ratios anchor_scale image_size level"
  by (simp add: astype_float32_def map_concat comp_def float64_level_corner_anchors_def
      level_corner_anchors_def corner_anchor_combination Let_def)

lemma generate_anchors_levels:
  assumes "0 \<le> min_level" and "min_level \<le> max_level"
    and "1 \<le> H" and "1 \<le> W" and "0 < combinations_count num_scales aspect_ratios"
  shows "generate_anchors (Arr2 (map (feature_row (H, W)) [0..<Suc (nat max_level)]))
       min_level max_level num_scales aspect_ratios (H, W)
       (replicate (nat (max_level - min_level + 1)) anchor_scale) =
     Inr (ordered_corner_anchors min_level max_level num_scales aspect_ratios anchor_scale (H, W))"
proof -
  let ?ls = "level_range min_level max_level"
  let ?c = "combinations_count num_scales aspect_ratios"
  let ?body = "\<lambda>level.
         and_then (index (map (\<lambda>l. replicate ?c (stride_at H l)) ?ls) level) (\<lambda>level_strides_y.
         and_then (index (map (\<lambda>l. replicate ?c (stride_at W l)) ?ls) level) (\<lambda>level_strides_x.
         and_then (index (replicate (length ?ls) (octave_scale_entries num_scales aspect_ratios)) level) (\<lambda>level_octave_scales.
         and_then (index (replicate (length ?ls) (aspect_entries num_scales aspect_ratios)) level) (\<lambda>level_aspects.
         and_then (index (replicate (length ?ls) (replicate ?c anchor_scale)) level) (\<lambda>level_anchor_scales.
         and_then (generate_level_boxes level_strides_y level_strides_x
                     level_octave_scales level_aspects level_anchor_scales (H, W)
                     (int ?c)) (\<lambda>boxes_level.
         and_then (concatenate_axis1 boxes_level) (\<lambda>boxes_level.
         Inr (concat boxes_level))))))))"
  have ne: "?ls \<noteq> []" using assms(1,2) by (simp add: level_range_def)
  have loop: "for_each ?body [0..<length ?ls] =
      Inr (map (\<lambda>i. float64_level_corner_anchors num_scales aspect_ratios anchor_scale (H, W)
                    (?ls ! i))
             [0..<length ?ls])"
  proof (rule for_each_all_Inr)
    fix i assume "i \<in> set [0..<length ?ls]"
    then have i: "i < length ?ls" by simp
    show "?body i = Inr (float64_level_corner_anchors num_scales aspect_ratios anchor_scale
        (H, W) (?ls ! i))"
      using i by (simp add: index_nth index_replicate level_boxes_concat [OF assms(3-5)])
  qed
  have "generate_anchors (Arr2 (map (feature_row (H, W)) [0..<Suc (nat max_level)]))
       min_level max_level num_scales aspect_ratios (H, W)
       (replicate (nat (max_level - min_level + 1)) anchor_scale) =
      and_then (for_each ?body [0..<length ?ls]) (\<lambda>boxes_all.
        and_then (vstack boxes_all) (\<lambda>anchors. Inr (astype_float32 anchors)))"
    unfolding generate_anchors_def generate_configurations_levels [OF assms(1,2)]
      and_then_Inr prod.case nat_int ..
  also have "\<dots> = Inr (astype_float32 (concat (map (float64_level_corner_anchors num_scales
      aspect_ratios anchor_scale (H, W)) ?ls)))"
    unfolding loop and_then_Inr map_nth_list using ne by (simp add: vstack_def)
  also have "astype_float32 (concat (map (float64_level_corner_anchors num_scales
      aspect_ratios anchor_scale (H, W)) ?ls)) =
      concat (map (level_corner_anchors num_scales aspect_ratios anchor_scale (H, W)) ?ls)"
    by (simp add: astype_float32_concat comp_def astype_float32_level)
  finally show ?thesis by (simp add: ordered_corner_anchors_def)
qed

lemma build_prior_boxes_ordered:
  assumes "0 \<le> min_level" and "min_level \<le> max_level" and "1 \<le> max_level"
    and "1 \<le> fst image_size" and "1 \<le> snd image_size"
    and "1 \<le> num_scales" and "aspect_ratios \<noteq> []"
  shows "build_prior_boxes min_level max_level num_scales aspect_ratios anchor_scale image_size =
     Inr (ordered_prior_boxes min_level max_level num_scales aspect_ratios anchor_scale image_size)"
proof -
  obtain H W where hw: "image_size = (H, W)" by (cases image_size)
  have c: "0 < combinations_count num_scales aspect_ratios"
    using assms(6,7) by (simp add: combinations_count_def)
  have rep: "np_repeat [anchor_scale] (max_level - min_level + 1) =
      Inr (replicate (nat (max_level - min_level + 1)) anchor_scale)"
    using assms(2) by (simp add: np_repeat_def)
  show ?thesis
    unfolding build_prior_boxes_def rep and_then_Inr hw
      compute_feature_sizes_levels [OF assms(3)]
    using generate_anchors_levels [OF assms(1,2) _ _ c, of H W anchor_scale] assms(4,5)
    by (simp add: hw ordered_prior_boxes_def to_center_form_def del: upt_Suc)
qed

subsection \<open>The number of anchors\<close>

lemma grid_count_stride_real:
  assumes "1 \<le> e"
  shows "grid_count (stride_real e l) e = nat (feature_size_at e l)"
proof -
  let ?f = "feature_size_at e l"
  have f: "1 \<le> ?f" using assms by (rule feature_size_at_pos)
  have "(real_of_int e - stride_real e l / 2) / stride_real e l = real_of_int ?f - 1 / 2"
    using assms f by (simp add: stride_real_def field_simps)
  moreover have "\<lceil>real_of_int ?f - 1 / 2\<rceil> = ?f"
    by (rule ceiling_unique) simp_all
  ultimately show ?thesis by (simp add: grid_count_def)
qed

lemma length_center_coordinates [simp]:
  "length (center_coordinates s e) = grid_count s e"
  by (simp add: center_coordinates_def)

lemma length_grid_points [simp]:
  "length (grid_points xs ys) = length xs * length ys"
  by (simp add: grid_points_def length_concat comp_def sum_list_triv)

lemma length_level_corner_anchors:
  assumes "1 \<le> fst image_size" and "1 \<le> snd image_size"
  shows "length (level_corner_anchors num_scales aspect_ratios anchor_scale image_size level) =
     nat (feature_size_at (fst image_size) level) * nat (feature_size_at (snd image_size) level) *
     nat num_scales * length aspect_ratios"
  using assms
  by (simp add: level_corner_anchors_def Let_def length_concat comp_def sum_list_triv
      grid_count_stride_real combinations_count_def)

lemma length_ordered_prior_boxes:
  assumes "1 \<le> fst image_size" and "1 \<le> snd image_size"
  shows "length (ordered_prior_boxes min_level max_level num_scales aspect_ratios anchor_scale
       image_size) = anchor_count min_level max_level num_scales aspect_ratios image_size"
  by (simp add: ordered_prior_boxes_def ordered_corner_anchors_def length_concat comp_def
      length_level_corner_anchors [OF assms] anchor_count_def)

subsection \<open>Level ranges on which the call raises\<close>

lemma for_each_Inl_elem:
  assumes "x \<in> set xs" and "f x = Inl e"
  shows "\<exists>e'. for_each f xs = Inl e'"
proof (cases "for_each f xs")
  case (Inl e')
  then show ?thesis by blast
next
  case (Inr ys)
  then have "\<exists>y. f x = Inr y" using assms(1) by (rule for_each_Inr_elem)
  with assms(2) show ?thesis by simp
qed

lemma generate_level_boxes_short_row:
  assumes "length strides_y < nat c"
  shows "\<exists>e. generate_level_boxes strides_y strides_x octave_scales aspects anchor_scales
      image_size c = Inl e"
  unfolding generate_level_boxes_def
proof (rule for_each_Inl_elem)
  show "length strides_y \<in> set [0..<nat c]" using assms by simp
  show "and_then (index strides_y (length strides_y)) (\<lambda>stride_y.
       and_then (index strides_x (length strides_y)) (\<lambda>stride_x.
       and_then (index octave_scales (length strides_y)) (\<lambda>octave_scale.
       and_then (index aspects (length strides_y)) (\<lambda>aspect.
       and_then (index anchor_scales (length strides_y)) (\<lambda>anchor_scale.
       and_then (compute_box_coordinates stride_y stride_x octave_scale aspect
                   anchor_scale image_size)
         (\<lambda>(center_x, center_y, anchor_x, anchor_y).
           Inr (map2 (corner_box anchor_x anchor_y) center_x center_y))))))) = Inl IndexError"
    by (simp add: index_def)
qed

lemma length_py_slice_le: "length (py_slice a b xs) \<le> length xs"
  by (simp add: py_slice_def Let_def)

lemma column_Inr_length: "column a j = Inr col \<Longrightarrow> length col = length (atleast_2d a)"
  by (cases a) (auto split: if_splits)

lemma and_then_Inl_iff:
  "(\<exists>e. and_then m f = Inl e) \<longleftrightarrow> (\<exists>e. m = Inl e) \<or> (\<exists>x e. m = Inr x \<and> f x = Inl e)"
  by (cases m) simp_all

lemma generate_anchors_negative_min_level:
  assumes "min_level < 0" and "1 \<le> max_level" and "1 \<le> num_scales" and "aspect_ratios \<noteq> []"
  shows "\<exists>e. generate_anchors (Arr2 (map (feature_row image_size) [0..<Suc (nat max_level)]))
      min_level max_level num_scales aspect_ratios image_size anchor_scales = Inl e"
proof (cases "generate_configurations (Arr2 (map (feature_row image_size) [0..<Suc (nat max_level)]))
      min_level max_level num_scales aspect_ratios anchor_scales")
  case (Inl e)
  then show ?thesis by (simp add: generate_anchors_def)
next
  case (Inr cfg)
  let ?fs = "Arr2 (map (feature_row image_size) [0..<Suc (nat max_level)])"
  let ?nl = "max_level + 1 - min_level"
  let ?c = "int (nat num_scales) * int (length aspect_ratios)"
  have "1 \<le> nat num_scales" and "1 \<le> length aspect_ratios"
    using assms(3,4) by (simp_all add: Suc_le_eq)
  then have "1 \<le> nat num_scales * length aspect_ratios"
    by (metis mult_le_mono nat_mult_1)
  moreover have "?c = int (nat num_scales * length aspect_ratios)"
    by (simp only: of_nat_mult)
  ultimately have c1: "1 \<le> nat ?c"
    by (simp only: nat_int)
  from Inr obtain fH fW sy sx oc asp sc where
    feat: "build_features ?fs min_level max_level ?c = Inr (fH, fW)" and
    str: "build_strides ?fs fH fW ?nl = Inr (sy, sx)" and
    cfg: "cfg = ((sy, sx, oc, asp, sc), ?nl, ?c)"
    unfolding generate_configurations_def Let_def
    by (auto simp: and_then_eq_Inr)
  from feat obtain colH where
    col: "column (slice_rows min_level (max_level + 1) ?fs) 0 = Inr colH" and
    rep: "np_repeat colH ?c = Inr fH"
    unfolding build_features_def by (auto simp: and_then_eq_Inr)
  have "length colH \<le> Suc (nat max_level)"
    using column_Inr_length [OF col] length_py_slice_le [of min_level "max_level + 1"
        "map (feature_row image_size) [0..<Suc (nat max_level)]"]
    by (simp del: upt_Suc)
  then have k: "length colH < nat ?nl" using assms(1,2) by linarith
  have lfH: "length fH = length colH * nat ?c"
    using rep by (auto simp: np_repeat_def length_concat comp_def sum_list_triv split: if_splits)
  from str obtain bh where
    rs: "reshape_rows ?nl (map (\<lambda>f. fmul bh (reciprocal f)) fH) = Inr sy"
    unfolding build_strides_def by (auto simp: and_then_eq_Inr)
  have nl: "0 < ?nl" and lsy: "length sy = nat ?nl"
    and rows: "\<And>r. r \<in> set sy \<Longrightarrow> length r = length fH div nat ?nl"
    using reshape_rows_Inr_D [OF rs] by simp_all
  have sy0: "sy ! 0 \<in> set sy" using nl lsy by simp
  have "length colH * nat ?c < nat ?c * nat ?nl"
    using k c1 by (simp add: mult.commute)
  then have "length fH div nat ?nl < nat ?c"
    using nl by (simp add: lfH div_less_iff_less_mult)
  then have short: "length (sy ! 0) < nat ?c" using rows [OF sy0] by simp
  let ?body = "\<lambda>level.
         and_then (index sy level) (\<lambda>level_strides_y.
         and_then (index sx level) (\<lambda>level_strides_x.
         and_then (index oc level) (\<lambda>level_octave_scales.
         and_then (index asp level) (\<lambda>level_aspects.
         and_then (index sc level) (\<lambda>level_anchor_scales.
         and_then (generate_level_boxes level_strides_y level_strides_x
                     level_octave_scales level_aspects level_anchor_scales image_size
                     ?c) (\<lambda>boxes_level.
         and_then (concatenate_axis1 boxes_level) (\<lambda>boxes_level.
         Inr (concat boxes_level))))))))"
  have "\<exists>e. ?body 0 = Inl e"
  proof -
    have i0: "index sy 0 = Inr (sy ! 0)" using nl lsy by (simp add: index_def)
    show ?thesis
      unfolding i0 and_then_Inr
      using generate_level_boxes_short_row [OF short]
      by (cases "index sx 0"; cases "index oc 0"; cases "index asp 0"; cases "index sc 0")
         (auto simp: and_then_Inl_iff)
  qed
  then obtain e where e: "?body 0 = Inl e" ..
  have "0 \<in> set [0..<nat ?nl]" using nl by simp
  then have "\<exists>e'. for_each ?body [0..<nat ?nl] = Inl e'"
    using e by (rule for_each_Inl_elem)
  then show ?thesis
    unfolding generate_anchors_def Inr cfg and_then_Inr prod.case
    by (auto simp: and_then_Inl_iff)
qed

lemma build_prior_boxes_max_level_0:
  assumes "min_level \<le> max_level" and "max_level \<le> 0"
  shows "build_prior_boxes min_level max_level num_scales aspect_ratios anchor_scale image_size =
     Inl IndexError"
proof -
  obtain H W where hw: "image_size = (H, W)" by (cases image_size)
  show ?thesis
    using assms
    by (simp add: build_prior_boxes_def np_repeat_def hw compute_feature_sizes_flat
        generate_anchors_def generate_configurations_def build_features_def Let_def)
qed

lemma build_prior_boxes_negative_min_level:
  assumes "min_level < 0" and "1 \<le> max_level" and "1 \<le> num_scales" and "aspect_ratios \<noteq> []"
  shows "\<exists>e. build_prior_boxes min_level max_level num_scales aspect_ratios anchor_scale
      image_size = Inl e"
proof -
  have rep: "np_repeat [anchor_scale] (max_level - min_level + 1) =
      Inr (replicate (nat (max_level - min_level + 1)) anchor_scale)"
    using assms(1,2) by (simp add: np_repeat_def)
  show ?thesis
    unfolding build_prior_boxes_def rep and_then_Inr compute_feature_sizes_levels [OF assms(2)]
    using generate_anchors_negative_min_level [OF assms]
    by (auto simp: and_then_Inl_iff)
qed

text \<open>
  Claim C1: for all valid inputs (\<open>min_level \<le> max_level\<close>, \<open>num_scales \<ge> 1\<close>,
  non-empty aspect ratios, positive image dimensions) the number of boxes
  \<open>build_prior_boxes\<close> returns is the sum over the levels of grid points times scales
  times aspect ratios. Whenever the call returns, it returns that many boxes; and it does
  return when the levels are pyramid levels, \<open>0 \<le> min_level\<close> and \<open>1 \<le> max_level\<close>.
  (The aspect ratios need not be positive for the count.)
\<close>

theorem build_prior_boxes_count:
  assumes "min_level \<le> max_level" and "1 \<le> num_scales" and "aspect_ratios \<noteq> []"
    and "1 \<le> fst image_size" and "1 \<le> snd image_size"
  shows "(\<forall>boxes. build_prior_boxes min_level max_level num_scales aspect_ratios anchor_scale
              image_size = Inr boxes \<longrightarrow>
            length boxes = anchor_count min_level max_level num_scales aspect_ratios image_size) \<and>
         (0 \<le> min_level \<and> 1 \<le> max_level \<longrightarrow>
            (\<exists>boxes. build_prior_boxes min_level max_level num_scales aspect_ratios anchor_scale
              image_size = Inr boxes \<and>
            length boxes = anchor_count min_level max_level num_scales aspect_ratios image_size))"
proof -
  consider "0 \<le> min_level" "1 \<le> max_level" | "max_level \<le> 0" | "min_level < 0" "1 \<le> max_level"
    by linarith
  then show ?thesis
  proof cases
    case 1
    then show ?thesis
      using build_prior_boxes_ordered [OF 1(1) assms(1) 1(2) assms(4,5,2,3), of anchor_scale]
        length_ordered_prior_boxes [OF assms(4,5)]
      by simp
  next
    case 2
    then show ?thesis
      using build_prior_boxes_max_level_0 [OF assms(1) 2, of num_scales aspect_ratios
          anchor_scale image_size] assms(1)
      by simp
  next
    case 3
    then show ?thesis
      using build_prior_boxes_negative_min_level [OF 3 assms(2,3), of anchor_scale image_size]
      by auto
  qed
qed

lemma feature_size_512:
  "feature_size_at 512 3 = 64" "feature_size_at 512 4 = 32" "feature_size_at 512 5 = 16"
  "feature_size_at 512 6 = 8" "feature_size_at 512 7 = 4"
  by (simp_all add: feature_size_at_def downsample_def eval_nat_numeral)

lemma level_range_3_7: "level_range 3 7 = [3, 4, 5, 6, 7]"
  by (simp add: level_range_def upt_conv_Cons eval_nat_numeral)

lemma known_scenario_count:
  "anchor_count 3 7 3 [Fin 1, Fin 2, Fin (1 / 2)] (512, 512) = 49104"
  by (simp add: anchor_count_def level_range_3_7 feature_size_512)

theorem build_prior_boxes_count_witness:
  "feature_size_at 512 3 = 64 \<and>
   combinations_count 3 [Fin 1, Fin 2, Fin (1 / 2)] = 9 \<and>
   (\<exists>boxes. build_prior_boxes 3 7 3 [Fin 1, Fin 2, Fin (1 / 2)] (Fin 4) (512, 512) = Inr boxes \<and>
      length boxes = 49104)"
proof -
  have "feature_size_at 512 3 = 64"
    by (rule feature_size_512)
  moreover have "combinations_count 3 [Fin 1, Fin 2, Fin (1 / 2)] = 9"
    by (simp add: combinations_count_def)
  moreover have "\<exists>boxes. build_prior_boxes 3 7 3 [Fin 1, Fin 2, Fin (1 / 2)] (Fin 4) (512, 512) =
      Inr boxes \<and> length boxes = 49104"
    using build_prior_boxes_count [of 3 7 3 "[Fin 1, Fin 2, Fin (1 / 2)]" "(512, 512)" "Fin 4"]
    by (simp add: known_scenario_count)
  ultimately show ?thesis by blast
qed

subsection \<open>The order of the anchors\<close>

text \<open>
  Claim C2: for every valid configuration the anchors are ordered level-major, then
  grid-position-major, then combination-minor, and the combinations are scale-major: the
  octave scales of a level are \<open>[s0, s0, ..., s1, s1, ...]\<close>, each scale once per aspect
  ratio, and its aspects are the aspect ratios tiled once per scale.
\<close>

theorem build_prior_boxes_order:
  assumes "0 \<le> min_level" and "min_level \<le> max_level" and "1 \<le> max_level"
    and "1 \<le> fst image_size" and "1 \<le> snd image_size"
    and "1 \<le> num_scales" and "aspect_ratios \<noteq> []"
  shows "build_prior_boxes min_level max_level num_scales aspect_ratios anchor_scale image_size =
       Inr (concat (map (\<lambda>level.
              concat (map (\<lambda>center.
                map (\<lambda>combination.
                  to_center_form_box
                    (corner_anchor (Fin (stride_real (fst image_size) level))
                       (Fin (stride_real (snd image_size) level)) anchor_scale image_size
                       center combination))
                  (zip (octave_scale_entries num_scales aspect_ratios)
                       (aspect_entries num_scales aspect_ratios)))
                (grid_points
                   (center_coordinates (stride_real (snd image_size) level) (snd image_size))
                   (center_coordinates (stride_real (fst image_size) level) (fst image_size)))))
              (level_range min_level max_level))) \<and>
     build_octaves num_scales aspect_ratios (max_level + 1 - min_level) =
       Inr (replicate (nat (max_level + 1 - min_level))
              (concat (map (\<lambda>s. replicate (length aspect_ratios)
                                  (fdiv (Fin (real s)) (float_of_int num_scales)))
                         [0..<nat num_scales]))) \<and>
     build_aspects aspect_ratios num_scales (max_level + 1 - min_level) =
       Inr (replicate (nat (max_level + 1 - min_level))
              (concat (replicate (nat num_scales) aspect_ratios)))"
proof -
  have n: "1 \<le> max_level + 1 - min_level" using assms(2) by simp
  have "build_prior_boxes min_level max_level num_scales aspect_ratios anchor_scale image_size =
      Inr (ordered_prior_boxes min_level max_level num_scales aspect_ratios anchor_scale
        image_size)"
    using assms by (rule build_prior_boxes_ordered)
  then show ?thesis
    using build_octaves_rows [OF n, of num_scales aspect_ratios]
      build_aspects_rows [OF n, of aspect_ratios num_scales]
    by (simp add: ordered_prior_boxes_def ordered_corner_anchors_def level_corner_anchors_def
        Let_def map_concat comp_def octave_scale_entries_def aspect_entries_def)
qed

theorem build_prior_boxes_order_witness:
  "build_prior_boxes 1 2 1 [Fin 1, Fin 4] (Fin 1) (4, 4) =
     Inr [(Fin (1 / 4), Fin (1 / 4), Fin (1 / 2), Fin (1 / 2)),
          (Fin (1 / 4), Fin (1 / 4), Fin 1, Fin (1 / 4)),
          (Fin (3 / 4), Fin (1 / 4), Fin (1 / 2), Fin (1 / 2)),
          (Fin (3 / 4), Fin (1 / 4), Fin 1, Fin (1 / 4)),
          (Fin (1 / 4), Fin (3 / 4), Fin (1 / 2), Fin (1 / 2)),
          (Fin (1 / 4), Fin (3 / 4), Fin 1, Fin (1 / 4)),
          (Fin (3 / 4), Fin (3 / 4), Fin (1 / 2), Fin (1 / 2)),
          (Fin (3 / 4), Fin (3 / 4), Fin 1, Fin (1 / 4)),
          (Fin (1 / 2), Fin (1 / 2), Fin 1, Fin 1),
          (Fin (1 / 2), Fin (1 / 2), Fin 2, Fin (1 / 2))] \<and>
   build_octaves 2 [Fin 1, Fin 4] 1 = Inr [[Fin 0, Fin 0, Fin (1 / 2), Fin (1 / 2)]] \<and>
   build_aspects [Fin 1, Fin 4] 2 1 = Inr [[Fin 1, Fin 4, Fin 1, Fin 4]]"
proof -
  have a: "build_prior_boxes 1 2 1 [Fin 1, Fin 4] (Fin 1) (4, 4) =
     Inr [(Fin (1 / 4), Fin (1 / 4), Fin (1 / 2), Fin (1 / 2)),
          (Fin (1 / 4), Fin (1 / 4), Fin 1, Fin (1 / 4)),
          (Fin (3 / 4), Fin (1 / 4), Fin (1 / 2), Fin (1 / 2)),
          (Fin (3 / 4), Fin (1 / 4), Fin 1, Fin (1 / 4)),
          (Fin (1 / 4), Fin (3 / 4), Fin (1 / 2), Fin (1 / 2)),
          (Fin (1 / 4), Fin (3 / 4), Fin 1, Fin (1 / 4)),
          (Fin (3 / 4), Fin (3 / 4), Fin (1 / 2), Fin (1 / 2)),
          (Fin (3 / 4), Fin (3 / 4), Fin 1, Fin (1 / 4)),
          (Fin (1 / 2), Fin (1 / 2), Fin 1, Fin 1),
          (Fin (1 / 2), Fin (1 / 2), Fin 2, Fin (1 / 2))]"
    using build_prior_boxes_order [of 1 2 "(4, 4)" 1 "[Fin 1, Fin 4]" "Fin 1"]
    by (simp add: level_range_def upt_conv_Cons feature_size_at_def downsample_def
        stride_real_def center_coordinates_def grid_count_def grid_points_def
        octave_scale_entries_def aspect_entries_def corner_anchor_def
        float64_corner_anchor_def float32_def anchor_extents_def
        corner_box_def to_center_form_box_def fsub_def float_of_int_def eval_nat_numeral)
  have b: "build_octaves 2 [Fin 1, Fin 4] 1 = Inr [[Fin 0, Fin 0, Fin (1 / 2), Fin (1 / 2)]] \<and>
      build_aspects [Fin 1, Fin 4] 2 1 = Inr [[Fin 1, Fin 4, Fin 1, Fin 4]]"
    using build_prior_boxes_order [of 1 1 "(1, 1)" 2 "[Fin 1, Fin 4]" "Fin 1"]
    by (simp add: float_of_int_def eval_nat_numeral upt_conv_Cons)
  from a b show ?thesis by blast
qed

subsection \<open>Level 0\<close>

text \<open>
  Claim C10: for every \<open>0 \<le> min_level \<le> max_level\<close>, \<open>num_scales \<ge> 1\<close>, non-empty
  positive aspect ratios, positive anchor scale and image dimensions of at least 1,
  \<open>build_prior_boxes\<close> returns normally. At \<open>max_level = 0\<close> it raises IndexError:
  \<open>compute_feature_sizes\<close> returns a one-dimensional array there, which
  \<open>build_features\<close> indexes with \<open>[:, 0]\<close>.
\<close>

theorem build_prior_boxes_level_0_raises:
  "build_prior_boxes 0 0 3 [Fin 1, Fin 2, Fin (1 / 2)] (Fin 4) (512, 512) = Inl IndexError"
  by (simp add: build_prior_boxes_def np_repeat_def compute_feature_sizes_def
      generate_anchors_def generate_configurations_def build_features_def Let_def)

subsection \<open>The range of the coordinates\<close>

lemma center_coordinates_elem:
  assumes "0 < s" and "1 \<le> e" and "x \<in> set (center_coordinates s e)"
  shows "\<exists>r. x = Fin r \<and> 0 < r \<and> r < 1"
proof -
  from assms(3) obtain i where i: "i < grid_count s e"
    and x: "x = Fin ((s / 2 + real i * s) / real_of_int e)"
    by (auto simp: center_coordinates_def)
  have lt: "s / 2 + real i * s < real_of_int e"
    using i grid_count_iff [OF assms(1)] by simp
  have pos: "0 < s / 2 + real i * s" using assms(1) by (simp add: add_pos_nonneg)
  have e: "0 < real_of_int e" using assms(2) by simp
  have "0 < (s / 2 + real i * s) / real_of_int e" using pos e by simp
  moreover have "(s / 2 + real i * s) / real_of_int e < 1" using lt e by simp
  ultimately show ?thesis using x by blast
qed

lemma octave_scale_entries_elem:
  assumes "1 \<le> num_scales" and "v \<in> set (octave_scale_entries num_scales aspect_ratios)"
  shows "\<exists>r. v = Fin r \<and> 0 \<le> r \<and> r < 1"
proof -
  from assms(2) obtain k where k: "k < nat num_scales"
    and v: "v = fdiv (Fin (real k)) (float_of_int num_scales)"
    by (auto simp: octave_scale_entries_def)
  have n: "0 < real_of_int num_scales" using assms(1) by simp
  have "int k < num_scales" using k by linarith
  then have "real_of_int (int k) < real_of_int num_scales" by (simp only: of_int_less_iff)
  then have "real k / real_of_int num_scales < 1" using n by simp
  moreover have "0 \<le> real k / real_of_int num_scales" using n by simp
  moreover have "v = Fin (real k / real_of_int num_scales)"
    using v n by (simp add: float_of_int_def)
  ultimately show ?thesis by blast
qed

lemma aspect_entries_elem:
  "a \<in> set (aspect_entries num_scales aspect_ratios) \<Longrightarrow> a \<in> set aspect_ratios"
  by (auto simp: aspect_entries_def)

lemma anchor_extents_finite:
  assumes "0 < r" and "W \<noteq> 0" and "H \<noteq> 0"
  shows "anchor_extents (Fin sy) (Fin sx) (Fin ov) (Fin r) (Fin s) (H, W) =
     (Fin (s * sx * 2 powr ov * sqrt r / 2 / real_of_int W),
      Fin (s * sy * 2 powr ov * (1 / sqrt r) / 2 / real_of_int H))"
  using assms by (simp add: anchor_extents_def float_of_int_def)

lemma float32_moderate: "\<bar>x\<bar> \<le> 2 ^ 20 \<Longrightarrow> float32 (Fin x) = Fin x"
  by (simp add: float32_def)

lemma moderate_anchor_D:
  assumes "moderate_anchor (Fin s) a"
  shows "\<exists>r. a = Fin r \<and> 0 < s \<and> 0 < r \<and> s * sqrt r \<le> 2 ^ 19 \<and> s * (1 / sqrt r) \<le> 2 ^ 19"
proof (cases a)
  case (Fin r)
  from assms have s: "0 < s" and r: "0 < r" and up: "s * s * r \<le> 2 ^ 38"
    and lo: "s * s \<le> 2 ^ 38 * r"
    by (simp_all add: Fin)
  have "(s * sqrt r)\<^sup>2 = s * s * r" using r by (simp add: power2_eq_square)
  then have "(s * sqrt r)\<^sup>2 \<le> (2 ^ 19)\<^sup>2" using up by simp
  then have a: "s * sqrt r \<le> 2 ^ 19" by (rule power2_le_imp_le) simp
  have "(s * (1 / sqrt r))\<^sup>2 = s * s / r" using r by (simp add: power2_eq_square)
  moreover have "s * s / r \<le> 2 ^ 38" using lo r by (simp add: divide_le_eq)
  ultimately have "(s * (1 / sqrt r))\<^sup>2 \<le> (2 ^ 19)\<^sup>2" by simp
  then have b: "s * (1 / sqrt r) \<le> 2 ^ 19" by (rule power2_le_imp_le) simp
  show ?thesis using Fin s r a b by blast
qed (use assms in simp_all)

lemma half_extent_bounds:
  assumes "0 < s" and "0 < q" and "s * q \<le> B" and "1 \<le> e" and "0 \<le> v" and "v < 1"
  shows "0 < s * stride_real e l * 2 powr v * q / 2 / real_of_int e \<and>
     s * stride_real e l * 2 powr v * q / 2 / real_of_int e \<le> B"
proof -
  let ?f = "real_of_int (feature_size_at e l)"
  have f: "1 \<le> ?f" using feature_size_at_pos [OF assms(4), of l] by simp
  have e: "0 < real_of_int e" using assms(4) by simp
  have eq: "s * stride_real e l * 2 powr v * q / 2 / real_of_int e =
      (s * q) * ((2 powr v / 2) * (1 / ?f))"
    using e f by (simp add: stride_real_def field_simps)
  have "(2::real) powr v \<le> 2 powr 1" using assms(6) by (intro powr_mono) simp_all
  then have p: "2 powr v / 2 \<le> 1" by simp
  have p0: "0 < 2 powr v / 2" by simp
  have g: "1 / ?f \<le> 1" using f by simp
  have g0: "0 < 1 / ?f" using f by simp
  have c: "(2 powr v / 2) * (1 / ?f) \<le> 1"
    using p g g0 by (intro mult_le_one) simp_all
  have c0: "0 < (2 powr v / 2) * (1 / ?f)" using p0 g0 by (rule mult_pos_pos)
  have t: "0 < s * q" using assms(1,2) by simp
  have "(s * q) * ((2 powr v / 2) * (1 / ?f)) \<le> s * q"
    using c t by (intro mult_left_le) simp_all
  moreover have "0 < (s * q) * ((2 powr v / 2) * (1 / ?f))" using t c0 by (rule mult_pos_pos)
  ultimately show ?thesis using assms(3) unfolding eq by linarith
qed

lemma center_form_of_moderate_box:
  assumes "0 < x" and "x < 1" and "0 < y" and "y < 1"
    and "0 < hw" and "hw \<le> 2 ^ 19" and "0 < hh" and "hh \<le> 2 ^ 19"
  shows "to_center_form_box
       (case corner_box (Fin hw) (Fin hh) (Fin x) (Fin y) of
          (x_min, y_min, x_max, y_max) \<Rightarrow>
            (float32 x_min, float32 y_min, float32 x_max, float32 y_max)) =
     (Fin x, Fin y, Fin (2 * hw), Fin (2 * hh))"
proof -
  have "\<bar>x - hw\<bar> \<le> 2 ^ 20" "\<bar>x + hw\<bar> \<le> 2 ^ 20" "\<bar>y - hh\<bar> \<le> 2 ^ 20" "\<bar>y + hh\<bar> \<le> 2 ^ 20"
    using assms by simp_all
  then show ?thesis
    by (simp add: corner_box_def fsub_def float32_moderate to_center_form_box_def)
qed

lemma prior_box_shape:
  assumes "1 \<le> fst image_size" and "1 \<le> snd image_size" and "1 \<le> num_scales"
    and "\<And>a. a \<in> set aspect_ratios \<Longrightarrow> moderate_anchor (Fin s) a"
    and "b \<in> set (ordered_prior_boxes min_level max_level num_scales aspect_ratios (Fin s)
        image_size)"
  shows "\<exists>cx cy w h. b = (Fin cx, Fin cy, Fin w, Fin h) \<and> 0 < cx \<and> cx < 1 \<and>
     0 < cy \<and> cy < 1 \<and> 0 < w \<and> 0 < h"
proof -
  obtain H W where hw: "image_size = (H, W)" by (cases image_size)
  have H: "1 \<le> H" and W: "1 \<le> W" using assms(1,2) by (simp_all add: hw)
  from assms(5) obtain l x y ov a where
    x: "x \<in> set (center_coordinates (stride_real W l) W)" and
    y: "y \<in> set (center_coordinates (stride_real H l) H)" and
    z: "(ov, a) \<in> set (zip (octave_scale_entries num_scales aspect_ratios)
          (aspect_entries num_scales aspect_ratios))" and
    b: "b = to_center_form_box (corner_anchor (Fin (stride_real H l)) (Fin (stride_real W l))
          (Fin s) (H, W) (x, y) (ov, a))"
    unfolding ordered_prior_boxes_def ordered_corner_anchors_def level_corner_anchors_def
      Let_def grid_points_def hw
    by auto
  have ov: "ov \<in> set (octave_scale_entries num_scales aspect_ratios)"
    using z by (rule set_zip_leftD)
  have a: "a \<in> set (aspect_entries num_scales aspect_ratios)"
    using z by (rule set_zip_rightD)
  let ?sy = "stride_real H l" and ?sx = "stride_real W l"
  have sy: "0 < ?sy" and sx: "0 < ?sx" using H W by (simp_all add: stride_real_pos)
  from center_coordinates_elem [OF sx W x] obtain cx where
    cx: "x = Fin cx" "0 < cx" "cx < 1" by blast
  from center_coordinates_elem [OF sy H y] obtain cy where
    cy: "y = Fin cy" "0 < cy" "cy < 1" by blast
  from octave_scale_entries_elem [OF assms(3) ov] obtain v where
    v: "ov = Fin v" "0 \<le> v" "v < 1" by blast
  from moderate_anchor_D [OF assms(4) [OF aspect_entries_elem [OF a]]] obtain r where
    r: "a = Fin r" "0 < s" "0 < r" "s * sqrt r \<le> 2 ^ 19" "s * (1 / sqrt r) \<le> 2 ^ 19"
    by blast
  have W0: "W \<noteq> 0" and H0: "H \<noteq> 0" using H W by auto
  let ?hw = "s * ?sx * 2 powr v * sqrt r / 2 / real_of_int W"
  let ?hh = "s * ?sy * 2 powr v * (1 / sqrt r) / 2 / real_of_int H"
  have q1: "0 < sqrt r" and q2: "0 < 1 / sqrt r" using r(3) by simp_all
  have w: "0 < ?hw \<and> ?hw \<le> 2 ^ 19"
    using r(2) q1 r(4) W v(2,3) by (rule half_extent_bounds)
  have h: "0 < ?hh \<and> ?hh \<le> 2 ^ 19"
    using r(2) q2 r(5) H v(2,3) by (rule half_extent_bounds)
  have b': "b = (Fin cx, Fin cy, Fin (2 * ?hw), Fin (2 * ?hh))"
    unfolding b corner_anchor_def float64_corner_anchor_def cx(1) cy(1) v(1) r(1) prod.case
      anchor_extents_finite [OF r(3) W0 H0]
    using cx(2,3) cy(2,3) w h by (intro center_form_of_moderate_box) simp_all
  have "0 < 2 * ?hw" "0 < 2 * ?hh" using w h by linarith+
  then show ?thesis using b' cx(2,3) cy(2,3) by blast
qed

lemma build_prior_boxes_returns_finite:
  assumes "0 \<le> min_level" and "min_level \<le> max_level" and "1 \<le> max_level"
    and "1 \<le> fst image_size" and "1 \<le> snd image_size"
    and "1 \<le> num_scales" and "aspect_ratios \<noteq> []"
    and "list_all (moderate_anchor anchor_scale) aspect_ratios"
  shows "\<exists>boxes. build_prior_boxes min_level max_level num_scales aspect_ratios anchor_scale
        image_size = Inr boxes \<and>
      list_all (\<lambda>(a, b, c, d). is_finite a \<and> is_finite b \<and> is_finite c \<and> is_finite d) boxes"
proof -
  obtain a0 where "a0 \<in> set aspect_ratios" using assms(7) by (cases aspect_ratios) auto
  then have "moderate_anchor anchor_scale a0" using assms(8) by (simp add: list_all_iff)
  then obtain s where s: "anchor_scale = Fin s" by (cases anchor_scale) simp_all
  have ar: "\<And>a. a \<in> set aspect_ratios \<Longrightarrow> moderate_anchor (Fin s) a"
    using assms(8) by (simp add: list_all_iff s)
  let ?boxes = "ordered_prior_boxes min_level max_level num_scales aspect_ratios (Fin s) image_size"
  have "build_prior_boxes min_level max_level num_scales aspect_ratios (Fin s) image_size =
      Inr ?boxes"
    using assms(1-7) by (rule build_prior_boxes_ordered)
  moreover have "list_all (\<lambda>(a, b, c, d). is_finite a \<and> is_finite b \<and> is_finite c \<and> is_finite d)
      ?boxes"
    unfolding list_all_iff
  proof
    fix b assume "b \<in> set ?boxes"
    from prior_box_shape [OF assms(4,5,6) ar this]
    show "case b of (a, b, c, d) \<Rightarrow> is_finite a \<and> is_finite b \<and> is_finite c \<and> is_finite d"
      by auto
  qed
  ultimately show ?thesis unfolding s by blast
qed

text \<open>
  Claim C7: every coordinate of every box of \<open>build_prior_boxes\<close> lies within
  \<open>[-\<epsilon>, 1 + \<epsilon>]\<close> for a small slack. The widths and heights are not bounded by 1:
  the one anchor of scale 4 on the 1 x 1 feature map of a 2 x 2 image is 4 images wide.
\<close>

theorem prior_box_wider_than_image:
  "build_prior_boxes 1 1 1 [Fin 1] (Fin 4) (2, 2) =
     Inr [(Fin (1 / 2), Fin (1 / 2), Fin 4, Fin 4)]"
  by (simp add: build_prior_boxes_def np_repeat_def compute_feature_sizes_def vstack2_def
      float_of_int_def downsample_def generate_anchors_def generate_configurations_def
      build_features_def build_octaves_def build_aspects_def build_strides_def
      build_scales_def np_tile_def reshape_rows_def py_slice_def index_def
      generate_level_boxes_def compute_box_coordinates_def compute_aspect_ratio_def
      np_arange_def meshgrid_def concatenate_axis1_def vstack_def astype_float32_def
      float32_def to_center_form_def to_center_form_box_def corner_box_def reciprocal_def
      fsub_def Let_def numeral_2_eq_2 upt_rec)

text \<open>
  Claim C7, amended: for every valid configuration (\<open>0 \<le> min_level \<le> max_level\<close>,
  \<open>max_level \<ge> 1\<close>, \<open>num_scales \<ge> 1\<close>, image dimensions from 1 to \<open>2^19\<close>) whose
  aspect ratios \<open>r\<close>, at least one, and anchor scale \<open>s\<close> are finite and positive with
  \<open>1/2 \<le> s * sqrt r \<le> 2^19\<close> and \<open>1/2 \<le> s / sqrt r \<le> 2^19\<close>, the call returns, the
  centre coordinates \<open>cx\<close> and \<open>cy\<close> of every box lie strictly between 0 and 1, and its
  width and height are positive; they are not bounded by 1. The values are those of exact
  arithmetic: the rounding of float64 and float32 is not modelled. The bounds keep every
  anchor far inside the float32 range, where the cast to float32 does not overflow.
\<close>

theorem prior_box_centres_in_unit_square:
  assumes "0 \<le> min_level" and "min_level \<le> max_level" and "1 \<le> max_level"
    and "1 \<le> fst image_size" and "fst image_size \<le> 2 ^ 19"
    and "1 \<le> snd image_size" and "snd image_size \<le> 2 ^ 19"
    and "1 \<le> num_scales" and "aspect_ratios \<noteq> []"
    and "list_all (moderate_anchor anchor_scale) aspect_ratios"
  shows "\<exists>boxes. build_prior_boxes min_level max_level num_scales aspect_ratios anchor_scale
        image_size = Inr boxes \<and>
      (\<forall>b\<in>set boxes. \<exists>cx cy w h. b = (Fin cx, Fin cy, Fin w, Fin h) \<and>
          0 < cx \<and> cx < 1 \<and> 0 < cy \<and> cy < 1 \<and> 0 < w \<and> 0 < h)"
proof -
  obtain a0 where "a0 \<in> set aspect_ratios" using assms(9) by (cases aspect_ratios) auto
  then have "moderate_anchor anchor_scale a0" using assms(10) by (simp add: list_all_iff)
  then obtain s where s: "anchor_scale = Fin s" by (cases anchor_scale) simp_all
  have ar: "\<And>a. a \<in> set aspect_ratios \<Longrightarrow> moderate_anchor (Fin s) a"
    using assms(10) by (simp add: list_all_iff s)
  let ?boxes = "ordered_prior_boxes min_level max_level num_scales aspect_ratios (Fin s) image_size"
  have "build_prior_boxes min_level max_level num_scales aspect_ratios (Fin s) image_size =
      Inr ?boxes"
    using assms(1-4,6,8,9) by (rule build_prior_boxes_ordered)
  moreover have "\<forall>b\<in>set ?boxes. \<exists>cx cy w h. b = (Fin cx, Fin cy, Fin w, Fin h) \<and>
          0 < cx \<and> cx < 1 \<and> 0 < cy \<and> cy < 1 \<and> 0 < w \<and> 0 < h"
    using prior_box_shape [OF assms(4,6,8) ar] by blast
  ultimately show ?thesis unfolding s by blast
qed

theorem prior_box_centres_in_unit_square_witness:
  "\<exists>boxes. build_prior_boxes 3 7 3 [Fin 1, Fin 2, Fin (1 / 2)] (Fin 4) (512, 512) = Inr boxes \<and>
      (\<forall>b\<in>set boxes. \<exists>cx cy w h. b = (Fin cx, Fin cy, Fin w, Fin h) \<and>
          0 < cx \<and> cx < 1 \<and> 0 < cy \<and> cy < 1 \<and> 0 < w \<and> 0 < h)"
  using prior_box_centres_in_unit_square [of 3 7 "(512, 512)" 3 "[Fin 1, Fin 2, Fin (1 / 2)]" "Fin 4"]
  by simp

subsection \<open>An empty level range\<close>

lemma reshape_rows_no_rows: "n \<le> 0 \<Longrightarrow> reshape_rows n a = Inl ValueError"
  by (simp add: reshape_rows_def)

lemma build_octaves_no_levels:
  assumes "num_levels \<le> 0"
  shows "build_octaves num_scales aspect_ratios num_levels = Inl ValueError"
  using assms
  by (simp add: build_octaves_def np_repeat_def np_tile_def reshape_rows_no_rows)

lemma generate_configurations_no_levels:
  assumes "max_level < min_level"
  shows "generate_configurations feature_sizes min_level max_level num_scales aspect_ratios
       anchor_scales = Inl ValueError \<or>
     (\<exists>e. build_features feature_sizes min_level max_level
            (int (nat num_scales) * int (length aspect_ratios)) = Inl e \<and>
          generate_configurations feature_sizes min_level max_level num_scales aspect_ratios
            anchor_scales = Inl e)"
proof -
  have n: "max_level + 1 - min_level \<le> 0" using assms by simp
  show ?thesis
    unfolding generate_configurations_def Let_def build_octaves_no_levels [OF n]
    by (cases "build_features feature_sizes min_level max_level
          (int (nat num_scales) * int (length aspect_ratios))") auto
qed

lemma build_features_error:
  "build_features feature_sizes min_level max_level (int c) = Inl e \<Longrightarrow> e = IndexError"
  unfolding build_features_def
  by (cases "slice_rows min_level (max_level + 1) feature_sizes")
     (auto simp: np_repeat_def split: if_splits)

text \<open>
  Claim C5: with \<open>max_level < min_level\<close> anchor construction (\<open>build_prior_boxes\<close>,
  \<open>generate_configurations\<close>) fails fast with a descriptive configuration error. The
  module never compares the two levels. With levels 4 and 3 the level count is 0,
  \<open>build_features\<close> and \<open>build_strides\<close> return empty arrays, and the first call to
  fail is the \<open>reshape(0, -1)\<close> of the empty octave array in \<open>build_octaves\<close>: the
  error that reaches the caller is the ValueError of that reshape, about an array of size 0,
  not about the configuration.
\<close>

theorem empty_level_range_reshape_error:
  "build_features (Arr2 [[Fin 512, Fin 512], [Fin 256, Fin 256], [Fin 128, Fin 128],
       [Fin 64, Fin 64]]) 4 3 9 = Inr ([], []) \<and>
   build_octaves 3 [Fin 1, Fin 2, Fin (1 / 2)] (3 + 1 - 4) = Inl ValueError \<and>
   build_prior_boxes 4 3 3 [Fin 1, Fin 2, Fin (1 / 2)] (Fin 4) (512, 512) = Inl ValueError"
  by (simp add: build_prior_boxes_def np_repeat_def compute_feature_sizes_def vstack2_def
      float_of_int_def downsample_def generate_anchors_def generate_configurations_def
      build_features_def py_slice_def build_octaves_def np_tile_def
      reshape_rows_def Let_def eval_nat_numeral)

text \<open>
  Claim C5, amended: for every input with \<open>max_level < min_level\<close>, \<open>build_prior_boxes\<close>
  and \<open>generate_configurations\<close> raise ValueError or IndexError and return no anchor set.
\<close>

theorem invalid_level_range_raises:
  assumes "max_level < min_level"
  shows "(build_prior_boxes min_level max_level num_scales aspect_ratios anchor_scale image_size
            = Inl ValueError \<or>
          build_prior_boxes min_level max_level num_scales aspect_ratios anchor_scale image_size
            = Inl IndexError) \<and>
         (generate_configurations feature_sizes min_level max_level num_scales aspect_ratios
            anchor_scales = Inl ValueError \<or>
          generate_configurations feature_sizes min_level max_level num_scales aspect_ratios
            anchor_scales = Inl IndexError)"
proof -
  have cfg: "generate_configurations fs min_level max_level num_scales aspect_ratios sc =
        Inl ValueError \<or>
      generate_configurations fs min_level max_level num_scales aspect_ratios sc =
        Inl IndexError" for fs sc
    using generate_configurations_no_levels [OF assms, of fs num_scales aspect_ratios sc]
      build_features_error [of fs min_level max_level "nat num_scales * length aspect_ratios"]
    by (auto simp only: of_nat_mult)
  have "build_prior_boxes min_level max_level num_scales aspect_ratios anchor_scale image_size
            = Inl ValueError \<or>
          build_prior_boxes min_level max_level num_scales aspect_ratios anchor_scale image_size
            = Inl IndexError"
  proof (cases "max_level - min_level + 1 < 0")
    case True
    then show ?thesis by (simp add: build_prior_boxes_def np_repeat_def)
  next
    case False
    obtain fs where fs: "compute_feature_sizes image_size max_level = Inr fs"
    proof (cases "1 \<le> max_level")
      case True
      then show ?thesis using compute_feature_sizes_levels that by blast
    next
      case False
      then show ?thesis
        using compute_feature_sizes_flat [of max_level "fst image_size" "snd image_size"] that
        by simp
    qed
    show ?thesis
      using False cfg [of fs "concat (map (replicate (nat (max_level - min_level + 1))) [anchor_scale])"]
      by (auto simp: build_prior_boxes_def np_repeat_def fs generate_anchors_def)
  qed
  with cfg show ?thesis by blast
qed

theorem invalid_level_range_raises_witness:
  "build_prior_boxes 4 3 3 [Fin 1, Fin 2, Fin (1 / 2)] (Fin 4) (512, 512) = Inl ValueError \<and>
   build_prior_boxes 1 0 3 [Fin 1, Fin 2, Fin (1 / 2)] (Fin 4) (512, 512) = Inl IndexError \<and>
   build_prior_boxes 7 3 3 [Fin 1, Fin 2, Fin (1 / 2)] (Fin 4) (512, 512) = Inl ValueError"
proof -
  have a: "build_prior_boxes 4 3 3 [Fin 1, Fin 2, Fin (1 / 2)] (Fin 4) (512, 512) \<noteq> Inl IndexError"
    by (simp add: build_prior_boxes_def np_repeat_def compute_feature_sizes_def vstack2_def
      float_of_int_def downsample_def generate_anchors_def generate_configurations_def
      build_features_def py_slice_def build_octaves_def np_tile_def reshape_rows_def
      Let_def eval_nat_numeral)
  have b: "build_prior_boxes 1 0 3 [Fin 1, Fin 2, Fin (1 / 2)] (Fin 4) (512, 512) \<noteq> Inl ValueError"
    by (simp add: build_prior_boxes_def np_repeat_def compute_feature_sizes_def
      generate_anchors_def generate_configurations_def build_features_def Let_def)
  have c: "build_prior_boxes 7 3 3 [Fin 1, Fin 2, Fin (1 / 2)] (Fin 4) (512, 512) \<noteq> Inl IndexError"
    by (simp add: build_prior_boxes_def np_repeat_def)
  show ?thesis
    using a b c
      invalid_level_range_raises [of 3 4 3 "[Fin 1, Fin 2, Fin (1 / 2)]" "Fin 4" "(512, 512)"]
      invalid_level_range_raises [of 0 1 3 "[Fin 1, Fin 2, Fin (1 / 2)]" "Fin 4" "(512, 512)"]
      invalid_level_range_raises [of 3 7 3 "[Fin 1, Fin 2, Fin (1 / 2)]" "Fin 4" "(512, 512)"]
    by simp
qed

subsection \<open>Strides beyond the image extent\<close>

lemma grid_count_exceeding:
  assumes "0 < e" and "real_of_int e < s"
  shows "grid_count s e = (if s < 2 * real_of_int e then 1 else 0)"
proof -
  have s: "0 < s" using assms by linarith
  have one: "\<not> 1 < grid_count s e"
    using grid_count_iff [OF s, of 1 e] assms s by simp
  have zero: "0 < grid_count s e \<longleftrightarrow> s < 2 * real_of_int e"
    using grid_count_iff [OF s, of 0 e] by auto
  show ?thesis using one zero by (cases "s < 2 * real_of_int e") auto
qed

lemma np_arange_exceeding:
  assumes "0 < e" and "real_of_int e < s"
  shows "np_arange (fdiv (Fin s) (Fin 2)) (float_of_int e) (Fin s) =
     Inr (if s < 2 * real_of_int e then [Fin (s / 2)] else [])"
proof -
  have s: "0 < s" using assms by linarith
  show ?thesis
    unfolding np_arange_centers [OF s] grid_count_exceeding [OF assms] by simp
qed

lemma compute_box_coordinates_arange:
  "compute_box_coordinates stride_y stride_x octave_scale aspect anchor_scale (W, H) =
     and_then (np_arange (fdiv stride_x (Fin 2)) (float_of_int H) stride_x) (\<lambda>x.
     and_then (np_arange (fdiv stride_y (Fin 2)) (float_of_int W) stride_y) (\<lambda>y.
       Inr (concat (replicate (length y) (map (\<lambda>c. fdiv c (float_of_int H)) x)),
            concat (map (replicate (length x)) (map (\<lambda>c. fdiv c (float_of_int W)) y)),
            anchor_extents stride_y stride_x octave_scale aspect anchor_scale (W, H))))"
  by (simp add: compute_box_coordinates_def compute_aspect_ratio_def Let_def meshgrid_def
      anchor_extents_def map_concat comp_def)

text \<open>
  Claim C8: for every stride that exceeds the image extent of its dimension, the centre
  grid of \<open>compute_box_coordinates\<close> has exactly one point in that dimension. With a
  stride of 2 on an extent of 1 the first centre, \<open>stride / 2\<close>, is already at the
  extent, which \<open>np.arange\<close> excludes: the grid has no point.
\<close>

theorem stride_twice_extent_no_grid_point:
  "np_arange (fdiv (Fin 2) (Fin 2)) (float_of_int 1) (Fin 2) = Inr [] \<and>
   compute_box_coordinates (Fin 1) (Fin 2) (Fin 0) (Fin 1) (Fin 1) (1, 1) =
     Inr ([], [], Fin 1, Fin (1 / 2))"
  by (simp add: compute_box_coordinates_def compute_aspect_ratio_def np_arange_def
      meshgrid_def float_of_int_def fsub_def Let_def)

text \<open>
  Claim C8, amended: for a stride \<open>s\<close> that exceeds the image extent \<open>e\<close> of its
  dimension, the grid has exactly one point in that dimension, \<open>s / 2\<close>, when
  \<open>s < 2 e\<close>, and no point when \<open>s \<ge> 2 e\<close>. Here \<open>x\<close> and \<open>y\<close> are the two
  \<open>np.arange\<close> lines of \<open>compute_box_coordinates\<close>, which returns their meshgrid.
\<close>

theorem stride_exceeding_extent:
  assumes "0 < stride_y" and "0 < stride_x" and "1 \<le> W" and "1 \<le> H"
  shows "\<exists>x y.
     np_arange (fdiv (Fin stride_x) (Fin 2)) (float_of_int H) (Fin stride_x) = Inr x \<and>
     np_arange (fdiv (Fin stride_y) (Fin 2)) (float_of_int W) (Fin stride_y) = Inr y \<and>
     compute_box_coordinates (Fin stride_y) (Fin stride_x) octave_scale aspect anchor_scale
         (W, H) =
       Inr (concat (replicate (length y) (map (\<lambda>c. fdiv c (float_of_int H)) x)),
            concat (map (replicate (length x)) (map (\<lambda>c. fdiv c (float_of_int W)) y)),
            anchor_extents (Fin stride_y) (Fin stride_x) octave_scale aspect anchor_scale
              (W, H)) \<and>
     (real_of_int H < stride_x \<longrightarrow>
        x = (if stride_x < 2 * real_of_int H then [Fin (stride_x / 2)] else [])) \<and>
     (real_of_int W < stride_y \<longrightarrow>
        y = (if stride_y < 2 * real_of_int W then [Fin (stride_y / 2)] else []))"
proof -
  let ?x = "map (\<lambda>i. Fin (stride_x / 2 + real i * stride_x)) [0..<grid_count stride_x H]"
  let ?y = "map (\<lambda>i. Fin (stride_y / 2 + real i * stride_y)) [0..<grid_count stride_y W]"
  have x: "np_arange (fdiv (Fin stride_x) (Fin 2)) (float_of_int H) (Fin stride_x) = Inr ?x"
    using assms(2) by (rule np_arange_centers)
  have y: "np_arange (fdiv (Fin stride_y) (Fin 2)) (float_of_int W) (Fin stride_y) = Inr ?y"
    using assms(1) by (rule np_arange_centers)
  have box: "compute_box_coordinates (Fin stride_y) (Fin stride_x) octave_scale aspect
        anchor_scale (W, H) =
       Inr (concat (replicate (length ?y) (map (\<lambda>c. fdiv c (float_of_int H)) ?x)),
            concat (map (replicate (length ?x)) (map (\<lambda>c. fdiv c (float_of_int W)) ?y)),
            anchor_extents (Fin stride_y) (Fin stride_x) octave_scale aspect anchor_scale
              (W, H))"
    unfolding compute_box_coordinates_arange x y and_then_Inr ..
  have xe: "?x = (if stride_x < 2 * real_of_int H then [Fin (stride_x / 2)] else [])"
    if "real_of_int H < stride_x"
    using np_arange_exceeding [OF _ that] assms(4) x by simp
  have ye: "?y = (if stride_y < 2 * real_of_int W then [Fin (stride_y / 2)] else [])"
    if "real_of_int W < stride_y"
    using np_arange_exceeding [OF _ that] assms(3) y by simp
  show ?thesis
    using x y box xe ye by blast
qed

theorem stride_exceeding_extent_witness:
  "np_arange (fdiv (Fin 3) (Fin 2)) (float_of_int 2) (Fin 3) = Inr [Fin (3 / 2)] \<and>
   np_arange (fdiv (Fin 4) (Fin 2)) (float_of_int 2) (Fin 4) = Inr []"
proof -
  have "\<exists>x. np_arange (fdiv (Fin 3) (Fin 2)) (float_of_int 2) (Fin 3) = Inr x \<and>
      x = [Fin (3 / 2)]"
    using stride_exceeding_extent [of 3 3 2 2] by auto
  moreover have "\<exists>y. np_arange (fdiv (Fin 4) (Fin 2)) (float_of_int 2) (Fin 4) = Inr y \<and>
      y = []"
    using stride_exceeding_extent [of 4 4 2 2] by auto
  ultimately show ?thesis by simp
qed

subsection \<open>The geometry of one combination\<close>



subsection \<open>Aspect ratios outside the domain of the square root\<close>

lemma negative_aspect_box:
  assumes "a < 0"
  shows "to_center_form_box
       (corner_anchor (Fin sy) (Fin sx) (Fin s) (H, W) (Fin cx, Fin cy) (Fin v, Fin a)) =
     (NaN, NaN, NaN, NaN)"
  using assms
  by (simp add: corner_anchor_def float64_corner_anchor_def anchor_extents_def corner_box_def
      float32_def to_center_form_box_def fsub_def float_of_int_def)

lemma zero_aspect_box:
  assumes "0 < s" and "0 < sy" and "1 \<le> H"
  shows "\<exists>p w. to_center_form_box
       (corner_anchor (Fin sy) (Fin sx) (Fin s) (H, W) (Fin cx, Fin cy) (Fin v, Fin 0)) =
     (p, NaN, w, PInf)"
proof -
  have "0 < s * sy * 2 powr v" using assms(1,2) by simp
  then have b: "\<not> s * sy * 2 powr v < 0" "s * sy * 2 powr v \<noteq> 0" by linarith+
  have H: "\<not> real_of_int H < 0" using assms(3) by simp
  obtain hw where hw: "fdiv (fdiv (fmul (Fin (s * sx * 2 powr v)) (Fin 0)) (Fin 2))
      (float_of_int W) = hw" by simp
  obtain x_min where x_min: "float32 (fsub (Fin cx) hw) = x_min" by simp
  obtain x_max where x_max: "float32 (fadd (Fin cx) hw) = x_max" by simp
  have "corner_anchor (Fin sy) (Fin sx) (Fin s) (H, W) (Fin cx, Fin cy) (Fin v, Fin 0) =
      (x_min, NInf, x_max, PInf)"
    using b H hw x_min x_max
    by (simp add: corner_anchor_def float64_corner_anchor_def anchor_extents_def corner_box_def
        float32_def fsub_def float_of_int_def inf_of_def)
  then show ?thesis by (simp add: to_center_form_box_def fsub_def)
qed

lemma zip_partner:
  "length xs = length ys \<Longrightarrow> y \<in> set ys \<Longrightarrow> \<exists>x. (x, y) \<in> set (zip xs ys)"
  by (metis in_set_impl_in_set_zip2)

lemma aspect_entries_set:
  "1 \<le> num_scales \<Longrightarrow> set (aspect_entries num_scales aspect_ratios) = set aspect_ratios"
  by (cases "nat num_scales") (auto simp: aspect_entries_def)

lemma center_coordinates_first:
  assumes "1 \<le> e"
  shows "\<exists>c. Fin c \<in> set (center_coordinates (stride_real e l) e)"
proof -
  have "0 < grid_count (stride_real e l) e"
    using feature_size_at_pos [OF assms, of l] by (simp add: grid_count_stride_real [OF assms])
  then have "0 \<in> set [0..<grid_count (stride_real e l) e]" by simp
  then have "Fin ((stride_real e l / 2 + real (0::nat) * stride_real e l) / real_of_int e)
      \<in> set (center_coordinates (stride_real e l) e)"
    unfolding center_coordinates_def set_map by (rule imageI)
  then show ?thesis by blast
qed

lemma is_positive_D: "is_positive a \<Longrightarrow> \<exists>r. a = Fin r \<and> 0 < r"
  by (cases a) simp_all

lemma np_arange_error: "np_arange start stop step = Inl e \<Longrightarrow> e = ValueError"
  by (auto simp: np_arange_def split: npfloat.splits)

lemma np_arange_zero_step: "np_arange (Fin 0) (float_of_int e) (Fin 0) = Inl ValueError"
  by (simp add: np_arange_def float_of_int_def fsub_def inf_of_def)

lemma compute_box_coordinates_zero_stride_x:
  "compute_box_coordinates stride_y (Fin 0) octave_scale aspect factor dims = Inl ValueError"
  by (cases dims)
     (simp add: compute_box_coordinates_def compute_aspect_ratio_def Let_def
      np_arange_zero_step)

lemma compute_box_coordinates_zero_stride_y:
  "compute_box_coordinates (Fin 0) stride_x octave_scale aspect factor dims = Inl ValueError"
proof -
  obtain W H where dims: "dims = (W, H)" by (cases dims)
  show ?thesis
  proof (cases "np_arange (fdiv stride_x (Fin 2)) (float_of_int H) stride_x")
    case (Inl e)
    then have "e = ValueError" by (rule np_arange_error)
    with Inl show ?thesis
      by (simp add: dims compute_box_coordinates_def compute_aspect_ratio_def Let_def)
  next
    case (Inr x)
    then show ?thesis
      by (simp add: dims compute_box_coordinates_def compute_aspect_ratio_def Let_def
          np_arange_zero_step)
  qed
qed

text \<open>
  Claim C6: with a non-positive aspect ratio or a zero stride anchor construction fails
  with a numeric-domain error and never returns NaN or Inf silently. For an aspect ratio
  the module checks nothing and numpy raises nothing: \<open>np.sqrt\<close> of a negative number is
  NaN, and the call returns an array of NaN.
\<close>

theorem negative_aspect_ratio_returns_nan:
  "build_prior_boxes 1 1 1 [Fin (- 1)] (Fin 4) (2, 2) = Inr [(NaN, NaN, NaN, NaN)]"
  by (simp add: build_prior_boxes_def np_repeat_def compute_feature_sizes_def vstack2_def
      float_of_int_def downsample_def generate_anchors_def generate_configurations_def
      build_features_def build_octaves_def build_aspects_def build_strides_def
      build_scales_def np_tile_def reshape_rows_def py_slice_def index_def
      generate_level_boxes_def compute_box_coordinates_def compute_aspect_ratio_def
      np_arange_def meshgrid_def concatenate_axis1_def vstack_def astype_float32_def
      float32_def to_center_form_def to_center_form_box_def corner_box_def reciprocal_def
      fsub_def Let_def numeral_2_eq_2 upt_rec)

text \<open>
  Claim C6, amended: for an otherwise valid configuration (\<open>0 \<le> min_level \<le> max_level\<close>,
  \<open>max_level \<ge> 1\<close>, \<open>num_scales \<ge> 1\<close>, a finite positive anchor scale, image dimensions
  of at least 1) whose aspect ratios contain a finite \<open>a \<le> 0\<close>, \<open>build_prior_boxes\<close>
  raises nothing and returns an array: for \<open>a < 0\<close> it contains a box whose four
  coordinates are NaN, for \<open>a = 0\<close> a box whose \<open>cy\<close> is NaN and whose height is
  \<open>+inf\<close>. With a zero \<open>stride_x\<close> or a zero \<open>stride_y\<close>, \<open>compute_box_coordinates\<close>
  raises ValueError, the error of \<open>np.arange\<close> on a zero step. (The zero is \<open>+0.0\<close>;
  the arrays of \<open>np.arange\<close> have no size limit here.)
\<close>

theorem non_positive_aspect_ratio_returns:
  assumes "0 \<le> min_level" and "min_level \<le> max_level" and "1 \<le> max_level"
    and "1 \<le> fst image_size" and "1 \<le> snd image_size"
    and "1 \<le> num_scales" and "is_positive anchor_scale"
    and "Fin a \<in> set aspect_ratios" and "a \<le> 0"
  shows "(\<exists>boxes. build_prior_boxes min_level max_level num_scales aspect_ratios anchor_scale
        image_size = Inr boxes \<and>
      (if a < 0 then (NaN, NaN, NaN, NaN) \<in> set boxes
       else \<exists>cx w. (cx, NaN, w, PInf) \<in> set boxes)) \<and>
    compute_box_coordinates stride_y (Fin 0) octave_scale aspect factor dims = Inl ValueError \<and>
    compute_box_coordinates (Fin 0) stride_x octave_scale aspect factor dims = Inl ValueError"
proof -
  obtain H W where hw: "image_size = (H, W)" by (cases image_size)
  have H: "1 \<le> H" and W: "1 \<le> W" using assms(4,5) by (simp_all add: hw)
  from assms(7) obtain s where s: "anchor_scale = Fin s" "0 < s"
    using is_positive_D by blast
  have ne: "aspect_ratios \<noteq> []" using assms(8) by auto
  let ?l = "nat min_level"
  let ?sy = "stride_real H ?l" and ?sx = "stride_real W ?l"
  let ?octs = "octave_scale_entries num_scales aspect_ratios"
  let ?asps = "aspect_entries num_scales aspect_ratios"
  let ?boxes = "ordered_prior_boxes min_level max_level num_scales aspect_ratios (Fin s) (H, W)"
  have "nat min_level \<le> nat max_level" using assms(1,2) by simp
  then have l: "?l \<in> set (level_range min_level max_level)"
    unfolding level_range_def by (simp del: upt_Suc)
  obtain cx where cx: "Fin cx \<in> set (center_coordinates ?sx W)"
    using center_coordinates_first [OF W] by blast
  obtain cy where cy: "Fin cy \<in> set (center_coordinates ?sy H)"
    using center_coordinates_first [OF H] by blast
  have "Fin a \<in> set ?asps" using assms(6,8) by (simp add: aspect_entries_set)
  then obtain ov where z: "(ov, Fin a) \<in> set (zip ?octs ?asps)"
    using zip_partner [of ?octs ?asps] by auto
  then have "ov \<in> set ?octs" by (rule set_zip_leftD)
  then obtain v where v: "ov = Fin v"
    using octave_scale_entries_elem [OF assms(6)] by blast
  let ?b = "to_center_form_box
      (corner_anchor (Fin ?sy) (Fin ?sx) (Fin s) (H, W) (Fin cx, Fin cy) (Fin v, Fin a))"
  have mem: "?b \<in> set ?boxes"
    unfolding ordered_prior_boxes_def ordered_corner_anchors_def level_corner_anchors_def
      Let_def grid_points_def
    using l cx cy z v by fastforce
  have shape: "if a < 0 then (NaN, NaN, NaN, NaN) \<in> set ?boxes
      else \<exists>cx w. (cx, NaN, w, PInf) \<in> set ?boxes"
  proof (cases "a < 0")
    case True
    then show ?thesis using mem by (simp add: negative_aspect_box)
  next
    case False
    with assms(9) have a: "a = 0" by simp
    from zero_aspect_box [OF s(2) stride_real_pos [OF H] H]
    obtain p w where "?b = (p, NaN, w, PInf)" unfolding a by blast
    with mem have "\<exists>cx w. (cx, NaN, w, PInf) \<in> set ?boxes" by metis
    with False show ?thesis by simp
  qed
  have "build_prior_boxes min_level max_level num_scales aspect_ratios (Fin s) (H, W) =
      Inr ?boxes"
    using assms(1-3) H W assms(6) ne by (intro build_prior_boxes_ordered) simp_all
  with shape have "\<exists>boxes. build_prior_boxes min_level max_level num_scales aspect_ratios
        anchor_scale image_size = Inr boxes \<and>
      (if a < 0 then (NaN, NaN, NaN, NaN) \<in> set boxes
       else \<exists>cx w. (cx, NaN, w, PInf) \<in> set boxes)"
    unfolding s(1) hw by blast
  then show ?thesis
    by (simp only: compute_box_coordinates_zero_stride_x compute_box_coordinates_zero_stride_y
        simp_thms)
qed

theorem non_positive_aspect_ratio_returns_witness:
  "(\<exists>boxes. build_prior_boxes 3 7 3 [Fin 1, Fin 0, Fin (1 / 2)] (Fin 4) (512, 512) = Inr boxes \<and>
      (\<exists>cx w. (cx, NaN, w, PInf) \<in> set boxes)) \<and>
   (\<exists>boxes. build_prior_boxes 3 7 3 [Fin 1, Fin (- 2)] (Fin 4) (512, 512) = Inr boxes \<and>
      (NaN, NaN, NaN, NaN) \<in> set boxes) \<and>
   compute_box_coordinates (Fin 8) (Fin 0) (Fin 0) (Fin 1) (Fin 4) (512, 512) = Inl ValueError \<and>
   compute_box_coordinates (Fin 0) (Fin 8) (Fin 0) (Fin 1) (Fin 4) (512, 512) = Inl ValueError"
  using non_positive_aspect_ratio_returns [where min_level = 3 and max_level = 7
      and image_size = "(512, 512)" and num_scales = 3 and anchor_scale = "Fin 4" and a = 0
      and aspect_ratios = "[Fin 1, Fin 0, Fin (1 / 2)]" and stride_y = "Fin 8"
      and stride_x = "Fin 8" and octave_scale = "Fin 0" and aspect = "Fin 1"
      and factor = "Fin 4" and dims = "(512, 512)"]
    non_positive_aspect_ratio_returns [where min_level = 3 and max_level = 7
      and image_size = "(512, 512)" and num_scales = 3 and anchor_scale = "Fin 4" and a = "- 2"
      and aspect_ratios = "[Fin 1, Fin (- 2)]" and stride_y = "Fin 8"
      and stride_x = "Fin 8" and octave_scale = "Fin 0" and aspect = "Fin 1"
      and factor = "Fin 4" and dims = "(512, 512)"]
  by simp

end
